theory Spec2Isabelle
  imports Complex_Main
begin

section \<open>Python strings and regular expressions\<close>

text \<open>
  A Python string is modelled as a list of characters; a character stands for a code point
  below 256. \<open>is_space\<close> is \<open>str.isspace\<close> (and the class \<open>\s\<close>) on that range, and
  \<open>lower\<close> is \<open>str.lower\<close> there: the ASCII capitals and the accented capitals.

  Regular expressions are modelled by a backtracking matcher: \<open>rmatch\<close> lists, in the
  order in which Python's engine tries them, the ways a pattern matches a prefix of the
  text, each with the captured groups and the unmatched rest. The flag is
  \<open>re.IGNORECASE\<close>. Repetition is needed for character classes only.
\<close>

definition ascii_lowercase :: string where
  "ascii_lowercase = ''abcdefghijklmnopqrstuvwxyz''"

definition ascii_uppercase :: string where
  "ascii_uppercase = ''ABCDEFGHIJKLMNOPQRSTUVWXYZ''"

definition digit_chars :: string where
  "digit_chars = ''0123456789''"

definition whitespace_chars :: string where
  "whitespace_chars =
     [CHR 0x09, CHR 0x0A, CHR 0x0B, CHR 0x0C, CHR 0x0D,
      CHR 0x1C, CHR 0x1D, CHR 0x1E, CHR 0x1F, CHR 0x20, CHR 0x85, CHR 0xA0]"

definition is_space :: "char \<Rightarrow> bool" where
  "is_space c = (c \<in> set whitespace_chars)"

definition is_digit :: "char \<Rightarrow> bool" where
  "is_digit c = (c \<in> set digit_chars)"

definition is_alpha :: "char \<Rightarrow> bool" where
  "is_alpha c = (c \<in> set (ascii_lowercase @ ascii_uppercase))"

definition latin1_uppercase :: string where
  "latin1_uppercase = [
      CHR 0xC0, CHR 0xC1, CHR 0xC2, CHR 0xC3, CHR 0xC4, CHR 0xC5, CHR 0xC6, CHR 0xC7,
      CHR 0xC8, CHR 0xC9, CHR 0xCA, CHR 0xCB, CHR 0xCC, CHR 0xCD, CHR 0xCE, CHR 0xCF,
      CHR 0xD0, CHR 0xD1, CHR 0xD2, CHR 0xD3, CHR 0xD4, CHR 0xD5, CHR 0xD6, CHR 0xD8,
      CHR 0xD9, CHR 0xDA, CHR 0xDB, CHR 0xDC, CHR 0xDD, CHR 0xDE]"

definition latin1_lowercase :: string where
  "latin1_lowercase = [
      CHR 0xE0, CHR 0xE1, CHR 0xE2, CHR 0xE3, CHR 0xE4, CHR 0xE5, CHR 0xE6, CHR 0xE7,
      CHR 0xE8, CHR 0xE9, CHR 0xEA, CHR 0xEB, CHR 0xEC, CHR 0xED, CHR 0xEE, CHR 0xEF,
      CHR 0xF0, CHR 0xF1, CHR 0xF2, CHR 0xF3, CHR 0xF4, CHR 0xF5, CHR 0xF6, CHR 0xF8,
      CHR 0xF9, CHR 0xFA, CHR 0xFB, CHR 0xFC, CHR 0xFD, CHR 0xFE]"

definition lower_char :: "char \<Rightarrow> char" where
  "lower_char c =
     (case map_of (zip (ascii_uppercase @ latin1_uppercase) (ascii_lowercase @ latin1_lowercase)) c of
        Some d \<Rightarrow> d
      | None \<Rightarrow> c)"

definition lower :: "string \<Rightarrow> string" where
  "lower s = map lower_char s"

definition strip :: "string \<Rightarrow> string" where
  "strip s = rev (dropWhile is_space (rev (dropWhile is_space s)))"

fun split :: "char \<Rightarrow> string \<Rightarrow> string list" where
  "split sep [] = [[]]"
| "split sep (c # cs) =
     (if c = sep then [] # split sep cs
      else (case split sep cs of [] \<Rightarrow> [[c]] | w # ws \<Rightarrow> (c # w) # ws))"

definition startswith :: "string \<Rightarrow> string \<Rightarrow> bool" where
  "startswith s p = (take (length p) s = p)"

definition endswith :: "string \<Rightarrow> string \<Rightarrow> bool" where
  "endswith s p = startswith (rev s) (rev p)"

fun contains :: "string \<Rightarrow> string \<Rightarrow> bool" where
  "contains p [] = (p = [])"
| "contains p (c # cs) = (startswith (c # cs) p \<or> contains p cs)"

fun index :: "string \<Rightarrow> char \<Rightarrow> nat option" where
  "index [] x = None"
| "index (c # cs) x = (if c = x then Some 0 else map_option Suc (index cs x))"

definition digit_value :: "char \<Rightarrow> int" where
  "digit_value c = (case index digit_chars c of Some d \<Rightarrow> int d | None \<Rightarrow> 0)"

definition py_int :: "string \<Rightarrow> int" where
  "py_int s = foldl (\<lambda>a c. 10 * a + digit_value c) 0 s"

datatype cls = Lit char | Digit | Space | Alpha | Dot | Or cls cls | Not cls

fun in_cls :: "bool \<Rightarrow> cls \<Rightarrow> char \<Rightarrow> bool" where
  "in_cls ic (Lit x) c = (if ic then lower_char c = lower_char x else c = x)"
| "in_cls ic Digit c = is_digit c"
| "in_cls ic Space c = is_space c"
| "in_cls ic Alpha c = is_alpha c"
| "in_cls ic Dot c = (c \<noteq> CHR 0x0A)"
| "in_cls ic (Or a b) c = (in_cls ic a c \<or> in_cls ic b c)"
| "in_cls ic (Not a) c = (\<not> in_cls ic a c)"

datatype regex =
    Eps
  | Sym cls
  | Seq regex regex
  | Alt regex regex
  | Star cls
  | LazyStar cls
  | Plus cls
  | Group regex

fun greedy :: "(char \<Rightarrow> bool) \<Rightarrow> string \<Rightarrow> string list" where
  "greedy P [] = [[]]"
| "greedy P (c # cs) = (if P c then greedy P cs @ [c # cs] else [c # cs])"

fun lazy :: "(char \<Rightarrow> bool) \<Rightarrow> string \<Rightarrow> string list" where
  "lazy P [] = [[]]"
| "lazy P (c # cs) = (c # cs) # (if P c then lazy P cs else [])"

fun rmatch :: "bool \<Rightarrow> regex \<Rightarrow> string \<Rightarrow> (string list \<times> string) list" where
  "rmatch ic Eps s = [([], s)]"
| "rmatch ic (Sym k) s =
     (case s of [] \<Rightarrow> [] | c # cs \<Rightarrow> if in_cls ic k c then [([], cs)] else [])"
| "rmatch ic (Seq a b) s =
     concat (map (\<lambda>(g, r). map (\<lambda>(g', r'). (g @ g', r')) (rmatch ic b r)) (rmatch ic a s))"
| "rmatch ic (Alt a b) s = rmatch ic a s @ rmatch ic b s"
| "rmatch ic (Star k) s = map (Pair []) (greedy (in_cls ic k) s)"
| "rmatch ic (LazyStar k) s = map (Pair []) (lazy (in_cls ic k) s)"
| "rmatch ic (Plus k) s =
     (case s of [] \<Rightarrow> []
      | c # cs \<Rightarrow> if in_cls ic k c then map (Pair []) (greedy (in_cls ic k) cs) else [])"
| "rmatch ic (Group a) s =
     map (\<lambda>(g, r). (take (length s - length r) s # g, r)) (rmatch ic a s)"

definition re_match :: "bool \<Rightarrow> regex \<Rightarrow> string \<Rightarrow> string list option" where
  "re_match ic r s = (case rmatch ic r s of [] \<Rightarrow> None | (g, rest) # _ \<Rightarrow> Some g)"

fun re_search :: "bool \<Rightarrow> regex \<Rightarrow> string \<Rightarrow> string list option" where
  "re_search ic r [] = re_match ic r []"
| "re_search ic r (c # cs) =
     (case re_match ic r (c # cs) of Some g \<Rightarrow> Some g | None \<Rightarrow> re_search ic r cs)"

function re_remove :: "regex \<Rightarrow> string \<Rightarrow> string" where
  "re_remove r [] = []"
| "re_remove r (c # cs) =
     (case rmatch False r (c # cs) of
        [] \<Rightarrow> c # re_remove r cs
      | (g, rest) # _ \<Rightarrow>
          (let n = Suc (length cs) - length rest
           in if n = 0 then c # re_remove r cs else re_remove r (drop (n - 1) cs)))"
  by pat_completeness auto
termination
  by (relation "measure (\<lambda>(r, s). length s)") auto

fun lit :: "string \<Rightarrow> regex" where
  "lit [] = Eps"
| "lit (c # cs) = Seq (Sym (Lit c)) (lit cs)"

fun seqs :: "regex list \<Rightarrow> regex" where
  "seqs [] = Eps"
| "seqs (r # rs) = Seq r (seqs rs)"

definition ansi_re :: regex where
  "ansi_re =
     Alt (seqs [Sym (Lit (CHR 0x1B)), Sym (Lit CHR ''[''), LazyStar (Not (Lit (CHR 0x1B))), Sym Alpha])
         (seqs [Sym (Lit (CHR 0x1B)), Sym (Lit CHR ''(''),
                Sym (Or (Lit CHR ''B'') (Or (Lit CHR ''0'') (Or (Lit CHR ''U'') (Lit CHR ''K''))))])"

definition clean_ansi :: "string \<Rightarrow> string" where
  "clean_ansi text = re_remove ansi_re text"


section \<open>Game state extractor (src/game\_state.py)\<close>

record Position =
  pos_x :: int
  pos_y :: int

record InventoryItem =
  slot :: string
  name :: string
  quantity :: int
  identified :: bool
  color :: "string option"
  item_type :: string
  ac_value :: int
  is_equipped :: bool
  equipment_slot :: "string option"

text \<open>Dictionaries keep their insertion order and are association lists.\<close>

record GameState =
  position :: "Position option"
  dungeon_branch :: string
  dungeon_level :: int
  health :: int
  max_health :: int
  mana :: int
  max_mana :: int
  gold :: int
  experience_level :: int
  experience_progress :: int
  hunger_level :: string
  status_line :: string
  message_line :: string
  inventory :: "string list"
  visible_map :: "string list"
  inventory_items :: "(string \<times> InventoryItem) list"
  identified_potions :: "(string \<times> string) list"
  untested_potions :: "(string \<times> string) list"
  items_on_ground :: "(string \<times> int) list"
  equipped_items :: "(string \<times> InventoryItem) list"
  current_ac :: int

record GameStateParser =
  state :: GameState
  last_health :: "int \<times> int"
  last_mana :: "int \<times> int"
  last_screen_output :: string

definition GameState_init :: GameState where
  "GameState_init =
     \<lparr>position = None, dungeon_branch = ''Dungeon'', dungeon_level = 1,
      health = 0, max_health = 0, mana = 0, max_mana = 0, gold = 0,
      experience_level = 1, experience_progress = 0, hunger_level = ''satisfied'',
      status_line = '''', message_line = '''', inventory = [], visible_map = [],
      inventory_items = [], identified_potions = [], untested_potions = [],
      items_on_ground = [], equipped_items = [], current_ac = 10\<rparr>"

definition GameStateParser_init :: GameStateParser where
  "GameStateParser_init =
     \<lparr>state = GameState_init\<lparr>health := 10, max_health := 10, mana := 0, max_mana := 0\<rparr>,
      last_health = (10, 10), last_mana = (0, 0), last_screen_output = ''''\<rparr>"

subsection \<open>The patterns of \<open>_parse_status_line\<close>\<close>

definition colon_or_space :: cls where
  "colon_or_space = Or (Lit CHR '':'') Space"

definition two_numbers :: "regex list" where
  "two_numbers = [Group (Plus Digit), Sym (Lit CHR ''/''), Group (Plus Digit)]"

definition branch_pattern :: regex where
  "branch_pattern = seqs [Group (Plus Alpha), Sym (Lit CHR '':''), Group (Plus Digit)]"

definition hp_patterns :: "regex list" where
  "hp_patterns =
     [seqs ([lit ''Health'', Plus colon_or_space] @ two_numbers),
      seqs ([lit ''HP'', Plus colon_or_space] @ two_numbers),
      seqs (two_numbers @ [Plus Space, lit ''hp''])]"

definition mana_patterns :: "regex list" where
  "mana_patterns =
     [seqs ([lit ''Magic'', Plus Space] @ two_numbers),
      seqs ([lit ''MP'', Plus colon_or_space] @ two_numbers),
      seqs (two_numbers @ [Plus Space, lit ''mp''])]"

definition xl_pattern :: regex where
  "xl_pattern = seqs [lit ''XL:'', Star Space, Group (Plus Digit)]"

definition next_pattern :: regex where
  "next_pattern = seqs [lit ''Next:'', Star Space, Group (Plus Digit), Sym (Lit CHR ''%'')]"

definition gold_pattern :: regex where
  "gold_pattern = seqs [lit ''Gold:'', Star Space, Group (Plus Digit)]"

definition hunger_keywords :: "string list" where
  "hunger_keywords =
     [''engorged'', ''full'', ''satisfied'', ''hungry'', ''very hungry'', ''near starving'',
      ''starving'']"

definition status_indicators :: "string list" where
  "status_indicators = [''Health'', ''HP'', ''XL:'', ''Time:'', ''Depth:'', ''Dungeon:'']"

text \<open>\<open>match.group(n)\<close>, and the loop that stops at the first pattern that matches.\<close>

definition group :: "string list \<Rightarrow> nat \<Rightarrow> string" where
  "group g n = g ! (n - 1)"

fun first_match :: "regex list \<Rightarrow> string \<Rightarrow> string list option" where
  "first_match [] l = None"
| "first_match (pattern # rest) l =
     (case re_search True pattern l of
        Some g \<Rightarrow> Some g
      | None \<Rightarrow> first_match rest l)"

subsection \<open>\<open>_parse_status_line\<close>, one definition for each of its blocks\<close>

definition extract_branch :: "string \<Rightarrow> GameState \<Rightarrow> GameState" where
  "extract_branch l st =
     (case re_search False branch_pattern l of
        Some g \<Rightarrow> st\<lparr>dungeon_branch := group g 1, dungeon_level := py_int (group g 2)\<rparr>
      | None \<Rightarrow> st)"

definition extract_hp :: "string \<Rightarrow> GameState \<Rightarrow> GameState" where
  "extract_hp l st =
     (case first_match hp_patterns l of
        Some g \<Rightarrow> st\<lparr>health := py_int (group g 1), max_health := py_int (group g 2)\<rparr>
      | None \<Rightarrow> st)"

definition extract_mana :: "string \<Rightarrow> GameState \<Rightarrow> GameState" where
  "extract_mana l st =
     (case first_match mana_patterns l of
        Some g \<Rightarrow> st\<lparr>mana := py_int (group g 1), max_mana := py_int (group g 2)\<rparr>
      | None \<Rightarrow> st)"

definition extract_xl :: "string \<Rightarrow> GameState \<Rightarrow> GameState" where
  "extract_xl l st =
     (case re_search True xl_pattern l of
        Some g \<Rightarrow> st\<lparr>experience_level := py_int (group g 1)\<rparr>
      | None \<Rightarrow> st)"

definition extract_progress :: "string \<Rightarrow> GameState \<Rightarrow> GameState" where
  "extract_progress l st =
     (case re_search True next_pattern l of
        Some g \<Rightarrow> st\<lparr>experience_progress := py_int (group g 1)\<rparr>
      | None \<Rightarrow> st)"

definition extract_gold :: "string \<Rightarrow> GameState \<Rightarrow> GameState" where
  "extract_gold l st =
     (case re_search True gold_pattern l of
        Some g \<Rightarrow> st\<lparr>gold := py_int (group g 1)\<rparr>
      | None \<Rightarrow> st)"

definition extract_hunger :: "string \<Rightarrow> GameState \<Rightarrow> GameState" where
  "extract_hunger l st =
     (case find (\<lambda>hunger. contains hunger (lower l)) hunger_keywords of
        Some hunger \<Rightarrow> st\<lparr>hunger_level := hunger\<rparr>
      | None \<Rightarrow> st)"

definition parse_status_line :: "string \<Rightarrow> GameState \<Rightarrow> GameState" where
  "parse_status_line l st =
     (extract_hunger l (extract_gold l (extract_progress l (extract_xl l
        (extract_mana l (extract_hp l (extract_branch l st)))))))\<lparr>status_line := l\<rparr>"

subsection \<open>\<open>_parse_line\<close> and \<open>parse_output\<close>\<close>

definition has_status :: "string \<Rightarrow> bool" where
  "has_status l = list_ex (\<lambda>indicator. contains indicator l) status_indicators"

definition parse_line :: "string \<Rightarrow> GameState \<Rightarrow> bool \<times> GameState" where
  "parse_line l st =
     (if l = [] \<or> length (strip l) < 2 then (False, st)
      else if has_status l then (True, parse_status_line l st)
      else if endswith (strip l) ''.'' \<or> endswith (strip l) ''?''
           then (False, st\<lparr>message_line := strip l\<rparr>)
      else (False, st))"

text \<open>The loop over the lines, threading \<open>found_status_in_this_update\<close> and the state.\<close>

fun parse_lines :: "string list \<Rightarrow> bool \<Rightarrow> GameState \<Rightarrow> bool \<times> GameState" where
  "parse_lines [] found st = (found, st)"
| "parse_lines (l # ls) found st =
     (if strip l \<noteq> []
      then (case parse_line (strip l) st of (f, st') \<Rightarrow> parse_lines ls (f \<or> found) st')
      else parse_lines ls found st)"

definition parse_output :: "string \<Rightarrow> GameStateParser \<Rightarrow> GameStateParser" where
  "parse_output out p =
     (if out = [] then p
      else
        (let clean_output = clean_ansi out;
             (found, st) = parse_lines (split CHR 0x0A clean_output) False (state p);
             lh = (if health st > 0 \<and> max_health st > 0
                   then (health st, max_health st) else last_health p);
             lm = (if mana st \<ge> 0 \<and> max_mana st > 0
                   then (mana st, max_mana st) else last_mana p);
             st' = (if \<not> found
                    then st\<lparr>health := fst lh, max_health := snd lh,
                            mana := fst lm, max_mana := snd lm\<rparr>
                    else st)
         in \<lparr>state = st', last_health = lh, last_mana = lm,
             last_screen_output = clean_output\<rparr>))"

text \<open>
  A snapshot contains a status-indicator line when one of its non-blank lines, stripped,
  has at least two characters and contains one of the indicator words.
\<close>

definition is_status_line :: "string \<Rightarrow> bool" where
  "is_status_line l = (strip l \<noteq> [] \<and> length (strip (strip l)) \<ge> 2 \<and> has_status (strip l))"

definition has_status_line :: "string \<Rightarrow> bool" where
  "has_status_line out = list_ex is_status_line (split CHR 0x0A (clean_ansi out))"

text \<open>The extractor after a sequence of snapshots, starting from a fresh one.\<close>

definition parse_all :: "string list \<Rightarrow> GameStateParser" where
  "parse_all outs = foldl (\<lambda>p out. parse_output out p) GameStateParser_init outs"

subsection \<open>Vocabulary for the claims about the extractor\<close>

text \<open>
  A snapshot is well displayed when every health reading \<open>h/m\<close> that a status line of it
  shows has \<open>h \<le> m\<close>, and every progress reading \<open>Next: p%\<close> has \<open>p \<le> 100\<close>.
\<close>

definition well_displayed_line :: "string \<Rightarrow> bool" where
  "well_displayed_line l =
     (is_status_line l \<longrightarrow>
        (case first_match hp_patterns (strip l) of
           Some g \<Rightarrow> py_int (group g 1) \<le> py_int (group g 2)
         | None \<Rightarrow> True)
        \<and> (case re_search True next_pattern (strip l) of
             Some g \<Rightarrow> py_int (group g 1) \<le> 100
           | None \<Rightarrow> True))"

definition well_displayed :: "string \<Rightarrow> bool" where
  "well_displayed out = list_all well_displayed_line (split CHR 0x0A (clean_ansi out))"

text \<open>
  A state transformer keeps or sets a field when it leaves the field as it is in every
  state, or gives it one fixed value in every state. It is an overwrite when it keeps or
  sets every field.
\<close>

definition keeps_or_sets :: "(GameState \<Rightarrow> 'a) \<Rightarrow> (GameState \<Rightarrow> GameState) \<Rightarrow> bool" where
  "keeps_or_sets x f \<longleftrightarrow> (\<forall>st. x (f st) = x st) \<or> (\<exists>c. \<forall>st. x (f st) = c)"

definition overwrite :: "(GameState \<Rightarrow> GameState) \<Rightarrow> bool" where
  "overwrite f \<longleftrightarrow>
     keeps_or_sets position f \<and> keeps_or_sets dungeon_branch f \<and> keeps_or_sets dungeon_level f
     \<and> keeps_or_sets health f \<and> keeps_or_sets max_health f \<and> keeps_or_sets mana f
     \<and> keeps_or_sets max_mana f \<and> keeps_or_sets gold f \<and> keeps_or_sets experience_level f
     \<and> keeps_or_sets experience_progress f \<and> keeps_or_sets hunger_level f
     \<and> keeps_or_sets status_line f \<and> keeps_or_sets message_line f
     \<and> keeps_or_sets inventory f \<and> keeps_or_sets visible_map f
     \<and> keeps_or_sets inventory_items f \<and> keeps_or_sets identified_potions f
     \<and> keeps_or_sets untested_potions f \<and> keeps_or_sets items_on_ground f
     \<and> keeps_or_sets equipped_items f \<and> keeps_or_sets current_ac f"


subsection \<open>\<open>find_better_armor\<close>\<close>

definition candidate ::
  "GameState \<Rightarrow> string \<times> InventoryItem \<Rightarrow> (int \<times> string \<times> InventoryItem) option" where
  "candidate st entry =
     (case entry of (slt, item) \<Rightarrow>
        if item_type item \<noteq> ''armor'' \<or> equipment_slot item = None
            \<or> equipment_slot item = Some [] then None
        else if is_equipped item then None
        else if ac_value item < 0 then
          (case map_of (equipped_items st) (the (equipment_slot item)) of
             Some current_equipped \<Rightarrow>
               if ac_value item < ac_value current_equipped
               then Some (ac_value current_equipped - ac_value item, slt, item)
               else None
           | None \<Rightarrow> Some (\<bar>ac_value item\<bar>, slt, item))
        else None)"

definition better_items :: "GameState \<Rightarrow> (int \<times> string \<times> InventoryItem) list" where
  "better_items st = List.map_filter (candidate st) (inventory_items st)"

text \<open>\<open>sort(reverse=True, key=...)\<close> is a stable sort into descending order of the key.\<close>

definition find_better_armor :: "GameState \<Rightarrow> (string \<times> InventoryItem) option" where
  "find_better_armor st =
     (case sort_key (\<lambda>x. - fst x) (better_items st) of
        [] \<Rightarrow> None
      | (improvement, best_slot, best_item) # _ \<Rightarrow> Some (best_slot, best_item))"

subsection \<open>Reference definitions for \<open>find_better_armor\<close>\<close>

text \<open>
  The reference definition in the words of the specification: every armor item that is
  not equipped and has an equipment slot is compared with the item equipped in the same
  slot; an empty slot counts as infinitely improvable; the first item with the largest
  improvement is returned, and only items that improve the armor class are candidates.
\<close>

datatype improvement = Finite int | Infinite

fun improvement_le :: "improvement \<Rightarrow> improvement \<Rightarrow> bool" where
  "improvement_le i Infinite = True"
| "improvement_le Infinite (Finite b) = False"
| "improvement_le (Finite a) (Finite b) = (a \<le> b)"

definition has_equipment_slot :: "InventoryItem \<Rightarrow> bool" where
  "has_equipment_slot item = (equipment_slot item \<noteq> None \<and> equipment_slot item \<noteq> Some [])"

definition equipped_in_slot :: "GameState \<Rightarrow> InventoryItem \<Rightarrow> InventoryItem option" where
  "equipped_in_slot st item = map_of (equipped_items st) (the (equipment_slot item))"

definition spec_improvement :: "GameState \<Rightarrow> InventoryItem \<Rightarrow> improvement" where
  "spec_improvement st item =
     (case equipped_in_slot st item of
        None \<Rightarrow> Infinite
      | Some current \<Rightarrow> Finite (ac_value current - ac_value item))"

definition spec_candidates :: "GameState \<Rightarrow> (string \<times> InventoryItem) list" where
  "spec_candidates st =
     filter (\<lambda>(slt, item). item_type item = ''armor'' \<and> has_equipment_slot item
                \<and> \<not> is_equipped item
                \<and> \<not> improvement_le (spec_improvement st item) (Finite 0))
       (inventory_items st)"

definition find_better_armor_spec :: "GameState \<Rightarrow> (string \<times> InventoryItem) option" where
  "find_better_armor_spec st =
     find (\<lambda>(slt, item).
             list_all (\<lambda>(slt', item').
                 improvement_le (spec_improvement st item') (spec_improvement st item))
               (spec_candidates st))
       (spec_candidates st)"

text \<open>
  The reference definition as amended: a candidate also needs a protective bonus (a
  negative armor class value); against an equipped item it must be strictly better and
  improves by the difference, and for an empty slot it improves by its own bonus.
\<close>

definition eligible :: "GameState \<Rightarrow> InventoryItem \<Rightarrow> bool" where
  "eligible st item =
     (item_type item = ''armor'' \<and> has_equipment_slot item \<and> \<not> is_equipped item
      \<and> ac_value item < 0
      \<and> (case equipped_in_slot st item of
            None \<Rightarrow> True
          | Some current \<Rightarrow> ac_value item < ac_value current))"

definition gain :: "GameState \<Rightarrow> InventoryItem \<Rightarrow> int" where
  "gain st item =
     (case equipped_in_slot st item of
        None \<Rightarrow> \<bar>ac_value item\<bar>
      | Some current \<Rightarrow> ac_value current - ac_value item)"

definition amended_candidates :: "GameState \<Rightarrow> (string \<times> InventoryItem) list" where
  "amended_candidates st = filter (\<lambda>(slt, item). eligible st item) (inventory_items st)"

definition find_better_armor_amended :: "GameState \<Rightarrow> (string \<times> InventoryItem) option" where
  "find_better_armor_amended st =
     find (\<lambda>(slt, item). list_all (\<lambda>(slt', item'). gain st item' \<le> gain st item)
                            (amended_candidates st))
       (amended_candidates st)"

text \<open>
  Every armor item of the inventory is equal to or worse than the item equipped in its slot.
\<close>

definition no_armor_improves :: "GameState \<Rightarrow> bool" where
  "no_armor_improves st =
     list_all (\<lambda>(slt, item). item_type item = ''armor'' \<longrightarrow>
                 (case equipped_in_slot st item of
                    None \<Rightarrow> False
                  | Some current \<Rightarrow> ac_value current \<le> ac_value item))
       (inventory_items st)"

text \<open>Example items and states.\<close>

definition armor_item :: "string \<Rightarrow> string \<Rightarrow> int \<Rightarrow> bool \<Rightarrow> string \<Rightarrow> InventoryItem" where
  "armor_item slt nm ac eq eslot =
     \<lparr>slot = slt, name = nm, quantity = 1, identified = True, color = None,
      item_type = ''armor'', ac_value = ac, is_equipped = eq, equipment_slot = Some eslot\<rparr>"

definition leather_equipped :: InventoryItem where
  "leather_equipped = armor_item ''e'' ''a +1 leather armour'' (- 1) True ''body''"

definition chain_mail :: InventoryItem where
  "chain_mail = armor_item ''a'' ''a +5 chain mail'' (- 5) False ''body''"

definition boots :: InventoryItem where
  "boots = armor_item ''b'' ''a +1 pair of boots'' (- 1) False ''feet''"

definition two_upgrades_state :: GameState where
  "two_upgrades_state =
     GameState_init\<lparr>inventory_items := [(''a'', chain_mail), (''b'', boots)],
                    equipped_items := [(''body'', leather_equipped)]\<rparr>"

definition worse_armor_state :: GameState where
  "worse_armor_state =
     GameState_init\<lparr>inventory_items := [(''b'', armor_item ''b'' ''a +1 robe'' (- 1) False ''body'')],
                    equipped_items := [(''body'', armor_item ''a'' ''a +5 chain mail'' (- 5) True ''body'')]\<rparr>"

section \<open>Decision engine (src/decision\_engine.py)\<close>

text \<open>
  Python integers are unbounded and are modelled by \<open>int\<close>; Python strings are lists of
  characters. The percentage that the rules compare is a Python float; it is modelled by
  the exact rational it approximates. Python's true division of two integers raises
  OverflowError when the quotient rounds to a magnitude of \<open>2 ^ 1024\<close> or more; that is
  the one exception a rule of the default engine can raise on a well-typed context, and it
  is kept as a branch of the model. The reason text that accompanies every command is
  only logged and is left out: an action yields the command alone.
\<close>

datatype Priority = CRITICAL | URGENT | HIGH | NORMAL | LOW

fun priority_value :: "Priority \<Rightarrow> int" where
  "priority_value CRITICAL = 1"
| "priority_value URGENT = 5"
| "priority_value HIGH = 10"
| "priority_value NORMAL = 20"
| "priority_value LOW = 30"

datatype error = OverflowError

record DecisionContext =
  output_text :: string
  health :: int
  max_health :: int
  level :: int
  dungeon_level :: int
  enemy_detected :: bool
  enemy_name :: string
  items_on_ground :: bool
  in_shop :: bool
  in_inventory_screen :: bool
  in_item_pickup_menu :: bool
  in_menu :: bool
  equip_slot_pending :: bool
  quaff_slot_pending :: bool
  has_level_up :: bool
  has_more_prompt :: bool
  attribute_increase_prompt :: bool
  save_game_prompt :: bool
  last_action_sent :: string
  last_level_up_processed :: int
  last_attribute_increase_level :: int
  last_equipment_check :: int
  last_inventory_refresh :: int
  move_count :: int
  has_gameplay_indicators :: bool
  gameplay_started :: bool
  goto_state :: "string option"
  goto_target_level :: int

definition health_percentage :: "DecisionContext \<Rightarrow> error + rat" where
  "health_percentage ctx =
     (if max_health ctx \<le> 0 then Inr 100
      else if (2 ^ 1024 - 2 ^ 970) * max_health ctx \<le> \<bar>health ctx\<bar> then Inl OverflowError
      else Inr (of_int (health ctx) / of_int (max_health ctx) * 100))"

text \<open>\<open>a and (percentage \<sim> bound)\<close>: the percentage is computed only when \<open>a\<close> holds.\<close>

definition and_percentage :: "bool \<Rightarrow> DecisionContext \<Rightarrow> (rat \<Rightarrow> bool) \<Rightarrow> error + bool" where
  "and_percentage a ctx test =
     (if a then (case health_percentage ctx of Inl e \<Rightarrow> Inl e | Inr p \<Rightarrow> Inr (test p))
      else Inr False)"

text \<open>An action whose reason text formats the percentage evaluates it once more.\<close>

definition with_percentage :: "DecisionContext \<Rightarrow> string \<Rightarrow> error + string" where
  "with_percentage ctx command =
     (case health_percentage ctx of Inl e \<Rightarrow> Inl e | Inr p \<Rightarrow> Inr command)"

text \<open>\<open>str\<close> of an integer: its decimal digits, with a minus sign when negative.\<close>

fun str_nat :: "nat \<Rightarrow> string" where
  "str_nat n =
     (if n < 10 then [digit_chars ! n]
      else str_nat (n div 10) @ [digit_chars ! (n mod 10)])"

declare str_nat.simps [simp del]

definition str_int :: "int \<Rightarrow> string" where
  "str_int i = (if i < 0 then CHR ''-'' # str_nat (nat (- i)) else str_nat (nat i))"

record Rule =
  name :: string
  priority :: Priority
  condition :: "DecisionContext \<Rightarrow> error + bool"
  action :: "DecisionContext \<Rightarrow> error + string"

type_synonym DecisionEngine = "Rule list"

definition add_rule :: "DecisionEngine \<Rightarrow> Rule \<Rightarrow> DecisionEngine" where
  "add_rule engine rule = engine @ [rule]"

text \<open>
  The loop of \<open>decide\<close> over the sorted rules: a rule whose condition or action raises is
  logged and skipped; \<open>None\<close> is the result \<open>(None, "No matching rules")\<close>.
\<close>

fun evaluate :: "Rule list \<Rightarrow> DecisionContext \<Rightarrow> string option" where
  "evaluate [] ctx = None"
| "evaluate (rule # rest) ctx =
     (case condition rule ctx of
        Inl e \<Rightarrow> evaluate rest ctx
      | Inr False \<Rightarrow> evaluate rest ctx
      | Inr True \<Rightarrow>
          (case action rule ctx of
             Inl e \<Rightarrow> evaluate rest ctx
           | Inr command \<Rightarrow> Some command))"

definition sorted_rules :: "DecisionEngine \<Rightarrow> Rule list" where
  "sorted_rules engine = sort_key (\<lambda>r. priority_value (priority r)) engine"

definition decide :: "DecisionEngine \<Rightarrow> DecisionContext \<Rightarrow> string option" where
  "decide engine ctx = evaluate (sorted_rules engine) ctx"

subsection \<open>The rules of \<open>create_default_engine\<close>, in the order they are added\<close>

definition rule_equip_slot_prompt :: Rule where
  "rule_equip_slot_prompt =
     \<lparr>name = ''Equip slot prompt'', priority = CRITICAL,
      condition = (\<lambda>ctx. Inr (equip_slot_pending ctx)),
      action = (\<lambda>ctx. Inr '''')\<rparr>"

definition rule_quaff_slot_prompt :: Rule where
  "rule_quaff_slot_prompt =
     \<lparr>name = ''Quaff slot prompt'', priority = CRITICAL,
      condition = (\<lambda>ctx. Inr (quaff_slot_pending ctx)),
      action = (\<lambda>ctx. Inr '''')\<rparr>"

definition rule_attribute_increase_prompt :: Rule where
  "rule_attribute_increase_prompt =
     \<lparr>name = ''Attribute increase prompt'', priority = CRITICAL,
      condition = (\<lambda>ctx. Inr (attribute_increase_prompt ctx
                                \<and> level ctx > last_attribute_increase_level ctx)),
      action = (\<lambda>ctx. Inr ''S'')\<rparr>"

definition rule_save_game_prompt :: Rule where
  "rule_save_game_prompt =
     \<lparr>name = ''Save game prompt'', priority = CRITICAL,
      condition = (\<lambda>ctx. Inr (save_game_prompt ctx)),
      action = (\<lambda>ctx. Inr ''n'')\<rparr>"

definition rule_more_prompt :: Rule where
  "rule_more_prompt =
     \<lparr>name = ''More prompt'', priority = CRITICAL,
      condition = (\<lambda>ctx. Inr (has_more_prompt ctx)),
      action = (\<lambda>ctx. Inr '' '')\<rparr>"

definition rule_screen_redraw :: Rule where
  "rule_screen_redraw =
     \<lparr>name = ''Screen redraw (health unreadable)'', priority = CRITICAL,
      condition = (\<lambda>ctx. Inr (health ctx = 0 \<and> max_health ctx = 0)),
      action = (\<lambda>ctx. Inr [CHR 0x12])\<rparr>"

definition rule_shop_detected :: Rule where
  "rule_shop_detected =
     \<lparr>name = ''Shop detected'', priority = HIGH,
      condition = (\<lambda>ctx. Inr (in_shop ctx)),
      action = (\<lambda>ctx. Inr [CHR 0x1B])\<rparr>"

definition rule_item_pickup_menu :: Rule where
  "rule_item_pickup_menu =
     \<lparr>name = ''Item pickup menu'', priority = HIGH,
      condition = (\<lambda>ctx. Inr (in_item_pickup_menu ctx)),
      action = (\<lambda>ctx. Inr '''')\<rparr>"

definition rule_inventory_screen :: Rule where
  "rule_inventory_screen =
     \<lparr>name = ''Inventory screen'', priority = HIGH,
      condition = (\<lambda>ctx. Inr (in_inventory_screen ctx)),
      action = (\<lambda>ctx. Inr '''')\<rparr>"

definition rule_in_menu :: Rule where
  "rule_in_menu =
     \<lparr>name = ''In menu'', priority = HIGH,
      condition = (\<lambda>ctx. Inr (in_menu ctx)),
      action = (\<lambda>ctx. Inr ''.'')\<rparr>"

definition rule_level_up_more :: Rule where
  "rule_level_up_more =
     \<lparr>name = ''Level-up with more prompt'', priority = URGENT,
      condition = (\<lambda>ctx. Inr (has_level_up ctx \<and> has_more_prompt ctx
                                \<and> level ctx > last_level_up_processed ctx)),
      action = (\<lambda>ctx. Inr '' '')\<rparr>"

definition rule_level_up :: Rule where
  "rule_level_up =
     \<lparr>name = ''Level-up'', priority = URGENT,
      condition = (\<lambda>ctx. Inr (has_level_up ctx \<and> level ctx > last_level_up_processed ctx)),
      action = (\<lambda>ctx. Inr ''.'')\<rparr>"

definition rule_items_on_ground :: Rule where
  "rule_items_on_ground =
     \<lparr>name = ''Items on ground'', priority = URGENT,
      condition = (\<lambda>ctx. Inr (items_on_ground ctx)),
      action = (\<lambda>ctx. Inr ''g'')\<rparr>"

definition rule_better_armor :: Rule where
  "rule_better_armor =
     \<lparr>name = ''Better armor available'', priority = URGENT,
      condition = (\<lambda>ctx. Inr False),
      action = (\<lambda>ctx. Inr '''')\<rparr>"

definition rule_untested_potions :: Rule where
  "rule_untested_potions =
     \<lparr>name = ''Untested potions'', priority = URGENT,
      condition = (\<lambda>ctx. Inr False),
      action = (\<lambda>ctx. Inr '''')\<rparr>"

definition rule_combat_low_health :: Rule where
  "rule_combat_low_health =
     \<lparr>name = ''Combat (low health - move to engage)'', priority = NORMAL,
      condition = (\<lambda>ctx. and_percentage (enemy_detected ctx) ctx (\<lambda>p. p \<le> 70)),
      action = (\<lambda>ctx. with_percentage ctx ''l'')\<rparr>"

definition rule_combat_autofight :: Rule where
  "rule_combat_autofight =
     \<lparr>name = ''Combat (autofight)'', priority = NORMAL,
      condition = (\<lambda>ctx. and_percentage (enemy_detected ctx) ctx (\<lambda>p. p > 70)),
      action = (\<lambda>ctx. Inr [CHR 0x09])\<rparr>"

definition rule_goto_location_type :: Rule where
  "rule_goto_location_type =
     \<lparr>name = ''Goto location type'', priority = NORMAL,
      condition = (\<lambda>ctx. Inr (goto_state ctx = Some ''awaiting_location_type'')),
      action = (\<lambda>ctx. Inr ''D'')\<rparr>"

definition rule_goto_level_number :: Rule where
  "rule_goto_level_number =
     \<lparr>name = ''Goto level number'', priority = NORMAL,
      condition = (\<lambda>ctx. Inr (goto_state ctx = Some ''awaiting_level_number'')),
      action = (\<lambda>ctx. Inr (str_int (goto_target_level ctx)))\<rparr>"

definition rule_rest_after_autofight :: Rule where
  "rule_rest_after_autofight =
     \<lparr>name = ''Rest after autofight'', priority = NORMAL,
      condition = (\<lambda>ctx. Inr (last_action_sent ctx = [CHR 0x09] \<and> \<not> enemy_detected ctx)),
      action = (\<lambda>ctx. Inr ''.'')\<rparr>"

definition rule_explore_good_health :: Rule where
  "rule_explore_good_health =
     \<lparr>name = ''Explore (good health)'', priority = NORMAL,
      condition = (\<lambda>ctx. and_percentage (has_gameplay_indicators ctx) ctx (\<lambda>p. p \<ge> 60)),
      action = (\<lambda>ctx. with_percentage ctx ''o'')\<rparr>"

definition rule_rest_to_recover :: Rule where
  "rule_rest_to_recover =
     \<lparr>name = ''Rest to recover'', priority = NORMAL,
      condition = (\<lambda>ctx. and_percentage (has_gameplay_indicators ctx) ctx (\<lambda>p. p < 60)),
      action = (\<lambda>ctx. with_percentage ctx ''5'')\<rparr>"

definition rule_explore_not_ready :: Rule where
  "rule_explore_not_ready =
     \<lparr>name = ''Explore (game not ready)'', priority = LOW,
      condition = (\<lambda>ctx. Inr (has_gameplay_indicators ctx)),
      action = (\<lambda>ctx. Inr ''o'')\<rparr>"

definition rule_waiting_for_gameplay :: Rule where
  "rule_waiting_for_gameplay =
     \<lparr>name = ''Waiting for gameplay'', priority = LOW,
      condition = (\<lambda>ctx. Inr (\<not> gameplay_started ctx)),
      action = (\<lambda>ctx. Inr ''o'')\<rparr>"

definition rule_fallback_exploration :: Rule where
  "rule_fallback_exploration =
     \<lparr>name = ''Fallback exploration'', priority = LOW,
      condition = (\<lambda>ctx. Inr True),
      action = (\<lambda>ctx. Inr ''o'')\<rparr>"

definition create_default_engine :: DecisionEngine where
  "create_default_engine =
     foldl add_rule []
       [rule_equip_slot_prompt, rule_quaff_slot_prompt, rule_attribute_increase_prompt,
        rule_save_game_prompt, rule_more_prompt, rule_screen_redraw,
        rule_shop_detected, rule_item_pickup_menu, rule_inventory_screen, rule_in_menu,
        rule_level_up_more, rule_level_up, rule_items_on_ground, rule_better_armor,
        rule_untested_potions,
        rule_combat_low_health, rule_combat_autofight,
        rule_goto_location_type, rule_goto_level_number,
        rule_rest_after_autofight, rule_explore_good_health, rule_rest_to_recover,
        rule_explore_not_ready, rule_waiting_for_gameplay, rule_fallback_exploration]"

subsection \<open>Vocabulary for the claims about rule order\<close>

text \<open>
  A rule matches a context when its condition returns true there (a condition that raises
  does not match). \<open>band_matches\<close>: some rule of the given priority band matches.
  \<open>no_earlier_match\<close>: no rule that \<open>decide\<close> evaluates before the rule of the given name
  matches.
\<close>

definition band_matches :: "Priority \<Rightarrow> DecisionEngine \<Rightarrow> DecisionContext \<Rightarrow> bool" where
  "band_matches p engine ctx =
     list_ex (\<lambda>r. priority r = p \<and> condition r ctx = Inr True) engine"


text \<open>A quiet turn: full health, nothing detected, no prompt, no pending protocol.\<close>

definition quiet_ctx :: DecisionContext where
  "quiet_ctx =
     \<lparr>output_text = '''', health = 100, max_health = 100, level = 1, dungeon_level = 1,
      enemy_detected = False, enemy_name = '''', items_on_ground = False, in_shop = False,
      in_inventory_screen = False, in_item_pickup_menu = False, in_menu = False,
      equip_slot_pending = False, quaff_slot_pending = False, has_level_up = False,
      has_more_prompt = False, attribute_increase_prompt = False, save_game_prompt = False,
      last_action_sent = '''', last_level_up_processed = 0, last_attribute_increase_level = 0,
      last_equipment_check = 0, last_inventory_refresh = 0, move_count = 0,
      has_gameplay_indicators = True, gameplay_started = True,
      goto_state = None, goto_target_level = 0\<rparr>"

text \<open>In a shop with items on the ground; a turn with a pending goto prompt; a
  context whose health does not fit a float.\<close>

definition shop_items_ctx :: DecisionContext where
  "shop_items_ctx = quiet_ctx\<lparr>in_shop := True, items_on_ground := True\<rparr>"



definition huge_health_ctx :: DecisionContext where
  "huge_health_ctx = quiet_ctx\<lparr>enemy_detected := True, health := 2 ^ 1100, max_health := 1\<rparr>"

section \<open>Direction to an enemy (src/bot.py)\<close>








section \<open>Character-creation flow (src/state\_machines/char\_creation\_state\_machine.py)\<close>

datatype CharCreationStates =
  STARTUP | START | SPECIES | CLASS | BACKGROUND | SKILLS | ABILITIES | DIFFICULTY
  | CONFIRMATION | GAMEPLAY | ERROR

text \<open>
  The patterns of this module are kept as the strings of the source and compiled. They use
  literal characters, the dot, the escapes \<open>\s\<close> and \<open>\d\<close>, and the postfix operators
  \<open>*\<close> and \<open>+\<close> only.
\<close>

definition backslash :: char where
  "backslash = CHR 0x5C"

definition escape_cls :: "char \<Rightarrow> cls" where
  "escape_cls c = (if c = CHR ''s'' then Space else if c = CHR ''d'' then Digit else Lit c)"

fun atom :: "string \<Rightarrow> (cls \<times> string) option" where
  "atom [] = None"
| "atom (c # cs) =
     (if c = backslash then (case cs of [] \<Rightarrow> None | d # rest \<Rightarrow> Some (escape_cls d, rest))
      else if c = CHR ''.'' then Some (Dot, cs)
      else Some (Lit c, cs))"

lemma atom_shorter: "atom s = Some (k, rest) \<Longrightarrow> length rest < length s"
  by (cases s) (auto split: if_splits list.splits)

function compile :: "string \<Rightarrow> regex" where
  "compile s =
     (case atom s of
        None \<Rightarrow> Eps
      | Some (k, rest) \<Rightarrow>
          (case rest of
             [] \<Rightarrow> Sym k
           | q # rest' \<Rightarrow>
               if q = CHR ''*'' then Seq (Star k) (compile rest')
               else if q = CHR ''+'' then Seq (Plus k) (compile rest')
               else Seq (Sym k) (compile rest)))"
  by pat_completeness auto
termination
  by (relation "measure length") (auto dest: atom_shorter)

declare compile.simps [simp del]

record MenuTransitionPattern =
  patterns :: "string list"
  is_regex :: bool
  case_sensitive :: bool
  match_all :: bool

definition pattern_found :: "MenuTransitionPattern \<Rightarrow> string \<Rightarrow> string \<Rightarrow> bool" where
  "pattern_found mp test_text pattern =
     (let pattern_to_check = (if case_sensitive mp then pattern else lower pattern)
      in if is_regex mp then re_search False (compile pattern_to_check) test_text \<noteq> None
         else contains pattern_to_check test_text)"

definition matches :: "MenuTransitionPattern \<Rightarrow> string \<Rightarrow> bool" where
  "matches mp text =
     (let test_text = (if case_sensitive mp then text else lower text)
      in if match_all mp then list_all (pattern_found mp test_text) (patterns mp)
         else list_ex (pattern_found mp test_text) (patterns mp))"

definition regex_any :: "string list \<Rightarrow> MenuTransitionPattern" where
  "regex_any ps = \<lparr>patterns = ps, is_regex = True, case_sensitive = False, match_all = False\<rparr>"

definition build_patterns :: "(CharCreationStates \<times> MenuTransitionPattern) list" where
  "build_patterns =
     [(GAMEPLAY,
       \<lparr>patterns = [''hp:'' @ [backslash] @ ''s+'' @ [backslash] @ ''d+/'' @ [backslash] @ ''d+'',
                    ''ac:'' @ [backslash] @ ''s+'' @ [backslash] @ ''d+'',
                    ''ev:'' @ [backslash] @ ''s+'' @ [backslash] @ ''d+''],
        is_regex = True, case_sensitive = False, match_all = True\<rparr>),
      (SPECIES,
       regex_any [''select your species'', ''select your ancestry'', ''choose.*race'',
                  ''choose.*species'', ''which.*race'', ''please select your species'']),
      (CLASS,
       regex_any [''select your class'', ''choose.*class'', ''job.*:'', ''profession.*:'',
                  ''which.*class'', ''please select your class'']),
      (BACKGROUND,
       regex_any [''select your background'', ''please select your background'',
                  ''choose.*background'', ''religious.*choice'']),
      (SKILLS,
       regex_any [''choose.*skill'', ''select.*skill'', ''skill.*point'', ''skill.*aptitude'',
                  ''choice.*weapon'', ''select.*weapon'']),
      (ABILITIES,
       regex_any [''ability'', ''ability.*score'', ''abil.*:'', ''select.*ability'']),
      (DIFFICULTY,
       regex_any [''difficulty'', ''challenge'', ''permadeath'']),
      (STARTUP,
       \<lparr>patterns = [''enter your name:'', ''choose game seed'', ''tutorial'', ''hints mode'',
                    ''dungeon sprint''],
        is_regex = False, case_sensitive = False, match_all = False\<rparr>)]"

datatype State =
  startup | species | class_select | background | skills | abilities | difficulty
  | confirmation | gameplay | error

fun state_id :: "State \<Rightarrow> string" where
  "state_id startup = ''startup''"
| "state_id species = ''species''"
| "state_id class_select = ''class_select''"
| "state_id background = ''background''"
| "state_id skills = ''skills''"
| "state_id abilities = ''abilities''"
| "state_id difficulty = ''difficulty''"
| "state_id confirmation = ''confirmation''"
| "state_id gameplay = ''gameplay''"
| "state_id error = ''error''"

record CharacterCreationStateMachine =
  current_state :: State
  screen_text :: string
  stuck_count :: int
  max_stuck_threshold :: int
  last_state :: "State option"
  state_history :: "string list"

definition CharacterCreationStateMachine_init :: CharacterCreationStateMachine where
  "CharacterCreationStateMachine_init =
     \<lparr>current_state = startup, screen_text = '''', stuck_count = 0, max_stuck_threshold = 3,
      last_state = None, state_history = [''start'']\<rparr>"

text \<open>
  A declared transition \<open>source.to(target)\<close>; each call in \<open>_trigger_transition\<close> is made
  only where the current state is its source.
\<close>

definition transition ::
  "State \<Rightarrow> State \<Rightarrow> CharacterCreationStateMachine \<Rightarrow> CharacterCreationStateMachine" where
  "transition source target m = (if current_state m = source then m\<lparr>current_state := target\<rparr> else m)"

definition trigger_transition ::
  "CharCreationStates \<Rightarrow> CharacterCreationStateMachine \<Rightarrow> CharacterCreationStateMachine" where
  "trigger_transition target_state m =
     (if target_state = STARTUP \<and> current_state m = startup then m
      else if target_state = SPECIES then
        (if current_state m = startup then transition startup species m
         else m)
      else if target_state = CLASS then
        (if current_state m = species then transition species class_select m
         else m)
      else if target_state = BACKGROUND then
        (if current_state m = species then transition species background m
         else if current_state m = class_select then transition class_select background m
         else m)
      else if target_state = SKILLS then
        (if current_state m = class_select then transition class_select skills m
         else if current_state m = background then transition background skills m
         else m)
      else if target_state = ABILITIES then
        (if current_state m = background then transition background abilities m
         else if current_state m = skills then transition skills abilities m
         else m)
      else if target_state = DIFFICULTY then
        (if current_state m = background then transition background difficulty m
         else if current_state m = skills then transition skills difficulty m
         else if current_state m = abilities then transition abilities difficulty m
         else m)
      else if target_state = GAMEPLAY then
        (if current_state m \<in> set [species, class_select, background, skills, abilities,
                                   difficulty, confirmation]
         then transition (current_state m) gameplay m
         else m)
      else m)"

definition process_screen :: "CharacterCreationStateMachine \<Rightarrow> CharacterCreationStateMachine" where
  "process_screen m =
     (if current_state m = gameplay then m
      else (case find (\<lambda>(target_state, pattern). matches pattern (screen_text m)) build_patterns of
              Some (target_state, pattern) \<Rightarrow> trigger_transition target_state m
            | None \<Rightarrow> m))"

definition update :: "string \<Rightarrow> CharacterCreationStateMachine \<Rightarrow> CharacterCreationStateMachine" where
  "update text m =
     (let m1 = m\<lparr>screen_text := lower text\<rparr>;
          previous = current_state m1;
          m2 = m1\<lparr>stuck_count := (if last_state m1 = Some (current_state m1)
                                  then stuck_count m1 + 1 else 0)\<rparr>;
          m3 = process_screen m2;
          m4 = (if previous \<noteq> current_state m3
                then m3\<lparr>state_history := state_history m3 @ [state_id (current_state m3)]\<rparr>
                else m3)
      in m4\<lparr>last_state := Some (current_state m4)\<rparr>)"

text \<open>The machine after a sequence of updates.\<close>

definition updates ::
  "string list \<Rightarrow> CharacterCreationStateMachine \<Rightarrow> CharacterCreationStateMachine" where
  "updates texts m = foldl (\<lambda>m text. update text m) m texts"

definition reached_gameplay :: CharacterCreationStateMachine where
  "reached_gameplay =
     updates [''Select your species'', ''HP: 9/9 AC: 3 EV: 11'']
       CharacterCreationStateMachine_init"

section \<open>Properties of the decision engine\<close>

lemmas rule_defs =
  rule_equip_slot_prompt_def rule_quaff_slot_prompt_def rule_attribute_increase_prompt_def
  rule_save_game_prompt_def rule_more_prompt_def rule_screen_redraw_def
  rule_shop_detected_def rule_item_pickup_menu_def rule_inventory_screen_def rule_in_menu_def
  rule_level_up_more_def rule_level_up_def rule_items_on_ground_def rule_better_armor_def
  rule_untested_potions_def rule_combat_low_health_def rule_combat_autofight_def
  rule_goto_location_type_def rule_goto_level_number_def rule_rest_after_autofight_def
  rule_explore_good_health_def rule_rest_to_recover_def rule_explore_not_ready_def
  rule_waiting_for_gameplay_def rule_fallback_exploration_def

lemma sorted_default_engine:
  "sorted_rules create_default_engine =
     [rule_equip_slot_prompt, rule_quaff_slot_prompt, rule_attribute_increase_prompt,
      rule_save_game_prompt, rule_more_prompt, rule_screen_redraw,
      rule_level_up_more, rule_level_up, rule_items_on_ground, rule_better_armor,
      rule_untested_potions,
      rule_shop_detected, rule_item_pickup_menu, rule_inventory_screen, rule_in_menu,
      rule_combat_low_health, rule_combat_autofight,
      rule_goto_location_type, rule_goto_level_number,
      rule_rest_after_autofight, rule_explore_good_health, rule_rest_to_recover,
      rule_explore_not_ready, rule_waiting_for_gameplay, rule_fallback_exploration]"
proof -
  have p: "priority rule_equip_slot_prompt = CRITICAL" "priority rule_quaff_slot_prompt = CRITICAL"
    "priority rule_attribute_increase_prompt = CRITICAL" "priority rule_save_game_prompt = CRITICAL"
    "priority rule_more_prompt = CRITICAL" "priority rule_screen_redraw = CRITICAL"
    "priority rule_shop_detected = HIGH" "priority rule_item_pickup_menu = HIGH"
    "priority rule_inventory_screen = HIGH" "priority rule_in_menu = HIGH"
    "priority rule_level_up_more = URGENT" "priority rule_level_up = URGENT"
    "priority rule_items_on_ground = URGENT" "priority rule_better_armor = URGENT"
    "priority rule_untested_potions = URGENT"
    "priority rule_combat_low_health = NORMAL" "priority rule_combat_autofight = NORMAL"
    "priority rule_goto_location_type = NORMAL" "priority rule_goto_level_number = NORMAL"
    "priority rule_rest_after_autofight = NORMAL" "priority rule_explore_good_health = NORMAL"
    "priority rule_rest_to_recover = NORMAL"
    "priority rule_explore_not_ready = LOW" "priority rule_waiting_for_gameplay = LOW"
    "priority rule_fallback_exploration = LOW"
    by (simp_all add: rule_defs)
  show ?thesis
    by (simp add: sorted_rules_def create_default_engine_def add_rule_def p)
qed

lemma evaluate_skip:
  "list_all (\<lambda>r. condition r ctx \<noteq> Inr True) pre \<Longrightarrow> evaluate (pre @ rest) ctx = evaluate rest ctx"
proof (induction pre)
  case Nil
  then show ?case by simp
next
  case (Cons r pre)
  then have "condition r ctx \<noteq> Inr True" by simp
  then have "evaluate (r # pre @ rest) ctx = evaluate (pre @ rest) ctx"
    by (cases "condition r ctx") (auto split: bool.splits)
  with Cons show ?case by simp
qed

lemma evaluate_hit:
  "condition r ctx = Inr True \<Longrightarrow> action r ctx = Inr c \<Longrightarrow> evaluate (r # rest) ctx = Some c"
  by simp


lemma rule_conditions:
  "condition rule_equip_slot_prompt ctx = Inr (equip_slot_pending ctx)"
  "condition rule_quaff_slot_prompt ctx = Inr (quaff_slot_pending ctx)"
  "condition rule_attribute_increase_prompt ctx =
     Inr (attribute_increase_prompt ctx \<and> level ctx > last_attribute_increase_level ctx)"
  "condition rule_save_game_prompt ctx = Inr (save_game_prompt ctx)"
  "condition rule_more_prompt ctx = Inr (has_more_prompt ctx)"
  "condition rule_screen_redraw ctx = Inr (health ctx = 0 \<and> max_health ctx = 0)"
  "condition rule_shop_detected ctx = Inr (in_shop ctx)"
  "condition rule_item_pickup_menu ctx = Inr (in_item_pickup_menu ctx)"
  "condition rule_inventory_screen ctx = Inr (in_inventory_screen ctx)"
  "condition rule_in_menu ctx = Inr (in_menu ctx)"
  "condition rule_level_up_more ctx =
     Inr (has_level_up ctx \<and> has_more_prompt ctx \<and> level ctx > last_level_up_processed ctx)"
  "condition rule_level_up ctx = Inr (has_level_up ctx \<and> level ctx > last_level_up_processed ctx)"
  "condition rule_items_on_ground ctx = Inr (items_on_ground ctx)"
  "condition rule_better_armor ctx = Inr False"
  "condition rule_untested_potions ctx = Inr False"
  "condition rule_combat_low_health ctx = and_percentage (enemy_detected ctx) ctx (\<lambda>p. p \<le> 70)"
  "condition rule_combat_autofight ctx = and_percentage (enemy_detected ctx) ctx (\<lambda>p. p > 70)"
  "condition rule_goto_location_type ctx = Inr (goto_state ctx = Some ''awaiting_location_type'')"
  "condition rule_goto_level_number ctx = Inr (goto_state ctx = Some ''awaiting_level_number'')"
  "condition rule_rest_after_autofight ctx =
     Inr (last_action_sent ctx = [CHR 0x09] \<and> \<not> enemy_detected ctx)"
  "condition rule_explore_good_health ctx =
     and_percentage (has_gameplay_indicators ctx) ctx (\<lambda>p. p \<ge> 60)"
  "condition rule_rest_to_recover ctx =
     and_percentage (has_gameplay_indicators ctx) ctx (\<lambda>p. p < 60)"
  "condition rule_explore_not_ready ctx = Inr (has_gameplay_indicators ctx)"
  "condition rule_waiting_for_gameplay ctx = Inr (\<not> gameplay_started ctx)"
  "condition rule_fallback_exploration ctx = Inr True"
  by (simp_all add: rule_defs)

lemma rule_actions:
  "action rule_equip_slot_prompt ctx = Inr ''''"
  "action rule_quaff_slot_prompt ctx = Inr ''''"
  "action rule_attribute_increase_prompt ctx = Inr ''S''"
  "action rule_save_game_prompt ctx = Inr ''n''"
  "action rule_more_prompt ctx = Inr '' ''"
  "action rule_screen_redraw ctx = Inr [CHR 0x12]"
  "action rule_shop_detected ctx = Inr [CHR 0x1B]"
  "action rule_item_pickup_menu ctx = Inr ''''"
  "action rule_inventory_screen ctx = Inr ''''"
  "action rule_in_menu ctx = Inr ''.''"
  "action rule_level_up_more ctx = Inr '' ''"
  "action rule_level_up ctx = Inr ''.''"
  "action rule_items_on_ground ctx = Inr ''g''"
  "action rule_better_armor ctx = Inr ''''"
  "action rule_untested_potions ctx = Inr ''''"
  "action rule_combat_low_health ctx = with_percentage ctx ''l''"
  "action rule_combat_autofight ctx = Inr [CHR 0x09]"
  "action rule_goto_location_type ctx = Inr ''D''"
  "action rule_goto_level_number ctx = Inr (str_int (goto_target_level ctx))"
  "action rule_rest_after_autofight ctx = Inr ''.''"
  "action rule_explore_good_health ctx = with_percentage ctx ''o''"
  "action rule_rest_to_recover ctx = with_percentage ctx ''5''"
  "action rule_explore_not_ready ctx = Inr ''o''"
  "action rule_waiting_for_gameplay ctx = Inr ''o''"
  "action rule_fallback_exploration ctx = Inr ''o''"
  by (simp_all add: rule_defs)

lemma rule_priorities:
    "priority rule_equip_slot_prompt = CRITICAL" "priority rule_quaff_slot_prompt = CRITICAL"
    "priority rule_attribute_increase_prompt = CRITICAL" "priority rule_save_game_prompt = CRITICAL"
    "priority rule_more_prompt = CRITICAL" "priority rule_screen_redraw = CRITICAL"
    "priority rule_shop_detected = HIGH" "priority rule_item_pickup_menu = HIGH"
    "priority rule_inventory_screen = HIGH" "priority rule_in_menu = HIGH"
    "priority rule_level_up_more = URGENT" "priority rule_level_up = URGENT"
    "priority rule_items_on_ground = URGENT" "priority rule_better_armor = URGENT"
    "priority rule_untested_potions = URGENT"
    "priority rule_combat_low_health = NORMAL" "priority rule_combat_autofight = NORMAL"
    "priority rule_goto_location_type = NORMAL" "priority rule_goto_level_number = NORMAL"
    "priority rule_rest_after_autofight = NORMAL" "priority rule_explore_good_health = NORMAL"
    "priority rule_rest_to_recover = NORMAL"
    "priority rule_explore_not_ready = LOW" "priority rule_waiting_for_gameplay = LOW"
    "priority rule_fallback_exploration = LOW"
    by (simp_all add: rule_defs)

lemma default_engine_rules:
  "create_default_engine =
       [rule_equip_slot_prompt, rule_quaff_slot_prompt, rule_attribute_increase_prompt,
        rule_save_game_prompt, rule_more_prompt, rule_screen_redraw,
        rule_shop_detected, rule_item_pickup_menu, rule_inventory_screen, rule_in_menu,
        rule_level_up_more, rule_level_up, rule_items_on_ground, rule_better_armor,
        rule_untested_potions,
        rule_combat_low_health, rule_combat_autofight,
        rule_goto_location_type, rule_goto_level_number,
        rule_rest_after_autofight, rule_explore_good_health, rule_rest_to_recover,
        rule_explore_not_ready, rule_waiting_for_gameplay, rule_fallback_exploration]"
  by (simp add: create_default_engine_def add_rule_def)


lemma evaluate_total:
  "r \<in> set rs \<Longrightarrow> condition r ctx = Inr True \<Longrightarrow> action r ctx = Inr c \<Longrightarrow> evaluate rs ctx \<noteq> None"
proof (induction rs)
  case Nil
  then show ?case by simp
next
  case (Cons x rs)
  show ?case
  proof (cases "x = r")
    case True
    with Cons.prems show ?thesis by simp
  next
    case False
    with Cons have "evaluate rs ctx \<noteq> None" by simp
    then show ?thesis by (auto split: sum.splits bool.splits)
  qed
qed



text \<open>\<open>str\<close> of a non-negative integer is read back by \<open>int\<close> as the same integer.\<close>

lemma digit_value_digit:
  assumes "k < 10"
  shows "digit_value (digit_chars ! k) = int k"
proof -
  from assms have "k \<in> {0, 1, 2, 3, 4, 5, 6, 7, 8, 9}" by auto
  then show ?thesis
    by (auto simp: digit_value_def digit_chars_def)
qed

lemma py_int_snoc: "py_int (s @ [c]) = 10 * py_int s + digit_value c"
  by (simp add: py_int_def)

lemma py_int_str_nat: "py_int (str_nat n) = int n"
proof (induction n rule: str_nat.induct)
  case (1 n)
  show ?case
  proof (cases "n < 10")
    case True
    then show ?thesis
      by (subst str_nat.simps) (simp add: digit_value_digit py_int_def)
  next
    case False
    then have "py_int (str_nat n)
                 = 10 * py_int (str_nat (n div 10)) + digit_value (digit_chars ! (n mod 10))"
      by (subst str_nat.simps) (simp add: py_int_snoc)
    also have "\<dots> = 10 * int (n div 10) + int (n mod 10)"
      using 1 False by (simp add: digit_value_digit)
    also have "\<dots> = int n"
      by (simp add: zdiv_int zmod_int)
    finally show ?thesis .
  qed
qed

lemma str_int_decimal: "0 \<le> i \<Longrightarrow> py_int (str_int i) = i"
  by (simp add: str_int_def py_int_str_nat)

subsection \<open>Claim C4: the "more" prompt is answered before combat\<close>

text \<open>
  C4. For every context in which the has-more-prompt flag and the enemy-detected flag are
  both set and no other pending-prompt flag is set (equip slot, quaff slot, attribute
  increase, save game), \<open>decide\<close> returns the prompt-dismissal command, a single space,
  and therefore neither the move command \<open>l\<close> nor the autofight command (TAB).
\<close>

theorem more_prompt_before_combat:
  assumes "has_more_prompt ctx" and "enemy_detected ctx"
    and "\<not> equip_slot_pending ctx" and "\<not> quaff_slot_pending ctx"
    and "\<not> attribute_increase_prompt ctx" and "\<not> save_game_prompt ctx"
  shows "decide create_default_engine ctx = Some '' ''
         \<and> decide create_default_engine ctx \<noteq> Some ''l''
         \<and> decide create_default_engine ctx \<noteq> Some [CHR 0x09]"
  using assms
  by (simp add: decide_def sorted_default_engine rule_conditions rule_actions)

theorem more_prompt_before_combat_witness:
  "has_more_prompt (quiet_ctx\<lparr>has_more_prompt := True, enemy_detected := True\<rparr>)
   \<and> enemy_detected (quiet_ctx\<lparr>has_more_prompt := True, enemy_detected := True\<rparr>)
   \<and> decide create_default_engine (quiet_ctx\<lparr>has_more_prompt := True, enemy_detected := True\<rparr>) = Some '' ''"
  using more_prompt_before_combat [of "quiet_ctx\<lparr>has_more_prompt := True, enemy_detected := True\<rparr>"]
  by (simp add: quiet_ctx_def)

lemma evaluate_first:
  assumes "list_all (\<lambda>r. condition r ctx \<noteq> Inr True) pre"
    and "condition r ctx = Inr True" and "action r ctx = Inr c"
  shows "evaluate (pre @ r # post) ctx = Some c"
  using evaluate_skip [OF assms(1), of "r # post"] assms(2,3) by simp

lemma critical_band:
  "band_matches CRITICAL create_default_engine ctx \<longleftrightarrow>
     equip_slot_pending ctx \<or> quaff_slot_pending ctx
     \<or> (attribute_increase_prompt ctx \<and> level ctx > last_attribute_increase_level ctx)
     \<or> save_game_prompt ctx \<or> has_more_prompt ctx \<or> (health ctx = 0 \<and> max_health ctx = 0)"
  unfolding band_matches_def default_engine_rules
  by (simp add: rule_priorities rule_conditions)

lemma high_band:
  "band_matches HIGH create_default_engine ctx \<longleftrightarrow>
     in_shop ctx \<or> in_item_pickup_menu ctx \<or> in_inventory_screen ctx \<or> in_menu ctx"
  unfolding band_matches_def default_engine_rules
  by (simp add: rule_priorities rule_conditions)

lemma urgent_band:
  "band_matches URGENT create_default_engine ctx \<longleftrightarrow>
     (has_level_up ctx \<and> has_more_prompt ctx \<and> level ctx > last_level_up_processed ctx)
     \<or> (has_level_up ctx \<and> level ctx > last_level_up_processed ctx)
     \<or> items_on_ground ctx"
  unfolding band_matches_def default_engine_rules
  by (simp add: rule_priorities rule_conditions)

lemma critical_rules_skipped:
  assumes "\<not> band_matches CRITICAL create_default_engine ctx"
  shows "decide create_default_engine ctx =
           evaluate [rule_level_up_more, rule_level_up, rule_items_on_ground, rule_better_armor,
      rule_untested_potions,
      rule_shop_detected, rule_item_pickup_menu, rule_inventory_screen, rule_in_menu,
      rule_combat_low_health, rule_combat_autofight,
      rule_goto_location_type, rule_goto_level_number,
      rule_rest_after_autofight, rule_explore_good_health, rule_rest_to_recover,
      rule_explore_not_ready, rule_waiting_for_gameplay, rule_fallback_exploration] ctx"
    (is "_ = evaluate ?rest ctx")
proof -
  let ?pre = "[rule_equip_slot_prompt, rule_quaff_slot_prompt, rule_attribute_increase_prompt,
      rule_save_game_prompt, rule_more_prompt, rule_screen_redraw]"
  have "list_all (\<lambda>r. condition r ctx \<noteq> Inr True) ?pre"
    using assms unfolding critical_band by (simp add: rule_conditions)
  then have "evaluate (?pre @ ?rest) ctx = evaluate ?rest ctx"
    by (rule evaluate_skip)
  then show ?thesis by (simp add: decide_def sorted_default_engine)
qed

subsection \<open>Claim C1: order of the HIGH and URGENT bands\<close>

text \<open>
  C1 (as amended). The engine sorts by the numeric priority value, and URGENT (5) is
  smaller than HIGH (10), so the URGENT band is evaluated before the HIGH band: for
  every context in which no CRITICAL-band rule matches, a HIGH-band rule matches and an
  URGENT-band rule matches, \<open>decide\<close> returns the command of the first matching
  URGENT rule, which is the level-up acknowledgement \<open>.\<close> when a level-up is pending
  and the grab command \<open>g\<close> otherwise; it does not return the shop-exit command (ESC).
\<close>
theorem urgent_band_before_high_band:
  assumes "\<not> band_matches CRITICAL create_default_engine ctx"
    and "band_matches HIGH create_default_engine ctx"
    and "band_matches URGENT create_default_engine ctx"
  shows "decide create_default_engine ctx =
           Some (if has_level_up ctx \<and> level ctx > last_level_up_processed ctx then ''.'' else ''g'')
         \<and> decide create_default_engine ctx \<noteq> Some [CHR 0x1B]"
proof -
  let ?post = "[rule_better_armor,
      rule_untested_potions,
      rule_shop_detected, rule_item_pickup_menu, rule_inventory_screen, rule_in_menu,
      rule_combat_low_health, rule_combat_autofight,
      rule_goto_location_type, rule_goto_level_number,
      rule_rest_after_autofight, rule_explore_good_health, rule_rest_to_recover,
      rule_explore_not_ready, rule_waiting_for_gameplay, rule_fallback_exploration]"
  from assms(1) have m: "condition rule_level_up_more ctx \<noteq> Inr True"
    unfolding critical_band by (simp add: rule_conditions)
  have "decide create_default_engine ctx =
           Some (if has_level_up ctx \<and> level ctx > last_level_up_processed ctx then ''.'' else ''g'')"
  proof (cases "has_level_up ctx \<and> level ctx > last_level_up_processed ctx")
    case True
    then have "condition rule_level_up ctx = Inr True"
      by (simp add: rule_conditions)
    then have "evaluate ([rule_level_up_more] @ rule_level_up # rule_items_on_ground # ?post) ctx
                 = Some ''.''"
      using m by (intro evaluate_first) (simp_all add: rule_actions)
    with True show ?thesis
      unfolding critical_rules_skipped [OF assms(1)] by simp
  next
    case False
    then have l: "condition rule_level_up ctx \<noteq> Inr True"
      by (simp add: rule_conditions)
    from False assms(3) have "items_on_ground ctx"
      unfolding urgent_band by blast
    then have "condition rule_items_on_ground ctx = Inr True"
      by (simp add: rule_conditions)
    then have "evaluate ([rule_level_up_more, rule_level_up] @ rule_items_on_ground # ?post) ctx
                 = Some ''g''"
      using m l by (intro evaluate_first) (simp_all add: rule_actions)
    with False show ?thesis
      unfolding critical_rules_skipped [OF assms(1)] by simp
  qed
  then show ?thesis by simp
qed

theorem urgent_band_before_high_band_witness:
  "\<not> band_matches CRITICAL create_default_engine shop_items_ctx
   \<and> band_matches HIGH create_default_engine shop_items_ctx
   \<and> band_matches URGENT create_default_engine shop_items_ctx
   \<and> decide create_default_engine shop_items_ctx = Some ''g''"
proof -
  have h: "\<not> band_matches CRITICAL create_default_engine shop_items_ctx"
    "band_matches HIGH create_default_engine shop_items_ctx"
    "band_matches URGENT create_default_engine shop_items_ctx"
    unfolding critical_band high_band urgent_band
    by (simp_all add: shop_items_ctx_def quiet_ctx_def)
  have "\<not> has_level_up shop_items_ctx" by (simp add: shop_items_ctx_def quiet_ctx_def)
  then show ?thesis using h urgent_band_before_high_band [OF h] by simp
qed

text \<open>
  C1 (as stated) fails: in a shop with items on the ground, with no CRITICAL-band rule
  matching, the HIGH band and the URGENT band both match and \<open>decide\<close> returns the grab
  command \<open>g\<close> of the URGENT band, not the shop-exit command of the HIGH band.
\<close>
theorem high_band_first_counterexample:
  "\<not> band_matches CRITICAL create_default_engine shop_items_ctx
   \<and> band_matches HIGH create_default_engine shop_items_ctx \<and> in_shop shop_items_ctx
   \<and> band_matches URGENT create_default_engine shop_items_ctx \<and> items_on_ground shop_items_ctx
   \<and> decide create_default_engine shop_items_ctx = Some ''g''
   \<and> decide create_default_engine shop_items_ctx \<noteq> Some [CHR 0x1B]"
proof -
  have h: "\<not> band_matches CRITICAL create_default_engine shop_items_ctx"
    "band_matches HIGH create_default_engine shop_items_ctx"
    "band_matches URGENT create_default_engine shop_items_ctx"
    "in_shop shop_items_ctx" "items_on_ground shop_items_ctx"
    unfolding critical_band high_band urgent_band
    by (simp_all add: shop_items_ctx_def quiet_ctx_def)
  have "decide create_default_engine shop_items_ctx = Some ''g''"
    unfolding critical_rules_skipped [OF h(1)]
    by (simp add: rule_conditions rule_actions shop_items_ctx_def quiet_ctx_def)
  with h show ?thesis by simp
qed

subsection \<open>Claim C8: responses of the goto sequence\<close>



subsection \<open>Claim C10: the default engine always decides\<close>

text \<open>
  C10. For every context, \<open>decide\<close> on the default engine returns a command: the condition
  of the fallback rule is constantly true, and a rule whose condition or action raises is
  skipped with evaluation continuing at the next rule, so the "No matching rules" result
  is never reached.
\<close>
theorem default_engine_always_decides:
  "decide create_default_engine ctx \<noteq> None
   \<and> condition rule_fallback_exploration ctx = Inr True
   \<and> (condition r ctx = Inl e \<or> (condition r ctx = Inr True \<and> action r ctx = Inl e)
      \<longrightarrow> evaluate (r # rest) ctx = evaluate rest ctx)"
proof -
  have "rule_fallback_exploration \<in> set (sorted_rules create_default_engine)"
    by (simp add: sorted_default_engine)
  then have "evaluate (sorted_rules create_default_engine) ctx \<noteq> None"
    by (rule evaluate_total) (simp_all add: rule_conditions rule_actions)
  moreover have "condition r ctx = Inl e \<or> (condition r ctx = Inr True \<and> action r ctx = Inl e)
      \<longrightarrow> evaluate (r # rest) ctx = evaluate rest ctx"
    by auto
  ultimately show ?thesis by (simp add: decide_def rule_conditions)
qed

theorem default_engine_always_decides_witness:
  "condition rule_combat_low_health huge_health_ctx = Inl OverflowError
   \<and> evaluate [rule_combat_low_health, rule_fallback_exploration] huge_health_ctx
       = evaluate [rule_fallback_exploration] huge_health_ctx
   \<and> decide create_default_engine huge_health_ctx \<noteq> None"
proof -
  have "condition rule_combat_low_health huge_health_ctx = Inl OverflowError"
    by (simp add: rule_conditions and_percentage_def health_percentage_def
        huge_health_ctx_def quiet_ctx_def)
  then show ?thesis
    using default_engine_always_decides
      [of huge_health_ctx rule_combat_low_health OverflowError "[rule_fallback_exploration]"]
    by simp
qed

section \<open>Properties of the game state extractor\<close>

subsection \<open>Line processing is an overwrite\<close>

lemma keeps_or_sets_comp:
  assumes "keeps_or_sets x f" and "keeps_or_sets x g"
  shows "keeps_or_sets x (\<lambda>st. g (f st))"
proof -
  from assms(2) consider (keep) "\<forall>st. x (g st) = x st" | (set) c where "\<forall>st. x (g st) = c"
    unfolding keeps_or_sets_def by blast
  then show ?thesis
  proof cases
    case keep
    from assms(1) consider (keep') "\<forall>st. x (f st) = x st" | (set') c where "\<forall>st. x (f st) = c"
      unfolding keeps_or_sets_def by blast
    then show ?thesis
    proof cases
      case keep'
      with keep show ?thesis unfolding keeps_or_sets_def by simp
    next
      case set'
      with keep have "\<forall>st. x (g (f st)) = c" by simp
      then show ?thesis unfolding keeps_or_sets_def by blast
    qed
  next
    case set
    then have "\<forall>st. x (g (f st)) = c" by simp
    then show ?thesis unfolding keeps_or_sets_def by blast
  qed
qed

lemma keeps_or_sets_idem:
  assumes "keeps_or_sets x f"
  shows "x (f (f st)) = x (f st)"
proof -
  from assms consider (keep) "\<forall>st. x (f st) = x st" | (set) c where "\<forall>st. x (f st) = c"
    unfolding keeps_or_sets_def by blast
  then show ?thesis
  proof cases
    case keep
    then show ?thesis by simp
  next
    case set
    then show ?thesis by simp
  qed
qed

lemma overwrite_comp:
  assumes "overwrite f" and "overwrite g"
  shows "overwrite (\<lambda>st. g (f st))"
  using assms unfolding overwrite_def
  by (auto intro!: keeps_or_sets_comp [of _ f g])

lemma overwrite_idem:
  assumes "overwrite f"
  shows "f (f st) = f st"
proof (rule GameState.equality)
  note k = assms [unfolded overwrite_def]
  show "position (f (f st)) = position (f st)" using k by (intro keeps_or_sets_idem) blast
  show "dungeon_branch (f (f st)) = dungeon_branch (f st)" using k by (intro keeps_or_sets_idem) blast
  show "GameState.dungeon_level (f (f st)) = GameState.dungeon_level (f st)" using k by (intro keeps_or_sets_idem) blast
  show "GameState.health (f (f st)) = GameState.health (f st)" using k by (intro keeps_or_sets_idem) blast
  show "GameState.max_health (f (f st)) = GameState.max_health (f st)" using k by (intro keeps_or_sets_idem) blast
  show "mana (f (f st)) = mana (f st)" using k by (intro keeps_or_sets_idem) blast
  show "max_mana (f (f st)) = max_mana (f st)" using k by (intro keeps_or_sets_idem) blast
  show "gold (f (f st)) = gold (f st)" using k by (intro keeps_or_sets_idem) blast
  show "experience_level (f (f st)) = experience_level (f st)" using k by (intro keeps_or_sets_idem) blast
  show "experience_progress (f (f st)) = experience_progress (f st)" using k by (intro keeps_or_sets_idem) blast
  show "hunger_level (f (f st)) = hunger_level (f st)" using k by (intro keeps_or_sets_idem) blast
  show "status_line (f (f st)) = status_line (f st)" using k by (intro keeps_or_sets_idem) blast
  show "message_line (f (f st)) = message_line (f st)" using k by (intro keeps_or_sets_idem) blast
  show "inventory (f (f st)) = inventory (f st)" using k by (intro keeps_or_sets_idem) blast
  show "visible_map (f (f st)) = visible_map (f st)" using k by (intro keeps_or_sets_idem) blast
  show "inventory_items (f (f st)) = inventory_items (f st)" using k by (intro keeps_or_sets_idem) blast
  show "identified_potions (f (f st)) = identified_potions (f st)" using k by (intro keeps_or_sets_idem) blast
  show "untested_potions (f (f st)) = untested_potions (f st)" using k by (intro keeps_or_sets_idem) blast
  show "GameState.items_on_ground (f (f st)) = GameState.items_on_ground (f st)" using k by (intro keeps_or_sets_idem) blast
  show "equipped_items (f (f st)) = equipped_items (f st)" using k by (intro keeps_or_sets_idem) blast
  show "current_ac (f (f st)) = current_ac (f st)" using k by (intro keeps_or_sets_idem) blast
  show "GameState.more (f (f st)) = GameState.more (f st)" by simp
qed

lemma overwrite_id: "overwrite (\<lambda>st. st)"
  by (simp add: overwrite_def keeps_or_sets_def)

lemma overwrite_option:
  assumes "\<And>g. overwrite (f g)"
  shows "overwrite (\<lambda>st. case m of Some g \<Rightarrow> f g st | None \<Rightarrow> st)"
  using assms by (cases m) (simp_all add: overwrite_id)

lemma overwrite_extract_branch: "overwrite (extract_branch l)"
  unfolding extract_branch_def
  by (rule overwrite_option) (simp add: overwrite_def keeps_or_sets_def)

lemma overwrite_extract_hp: "overwrite (extract_hp l)"
  unfolding extract_hp_def
  by (rule overwrite_option) (simp add: overwrite_def keeps_or_sets_def)

lemma overwrite_extract_mana: "overwrite (extract_mana l)"
  unfolding extract_mana_def
  by (rule overwrite_option) (simp add: overwrite_def keeps_or_sets_def)

lemma overwrite_extract_xl: "overwrite (extract_xl l)"
  unfolding extract_xl_def
  by (rule overwrite_option) (simp add: overwrite_def keeps_or_sets_def)

lemma overwrite_extract_progress: "overwrite (extract_progress l)"
  unfolding extract_progress_def
  by (rule overwrite_option) (simp add: overwrite_def keeps_or_sets_def)

lemma overwrite_extract_gold: "overwrite (extract_gold l)"
  unfolding extract_gold_def
  by (rule overwrite_option) (simp add: overwrite_def keeps_or_sets_def)

lemma overwrite_extract_hunger: "overwrite (extract_hunger l)"
  unfolding extract_hunger_def
  by (rule overwrite_option) (simp add: overwrite_def keeps_or_sets_def)

lemma overwrite_status_line: "overwrite (\<lambda>st. st\<lparr>status_line := l\<rparr>)"
  by (simp add: overwrite_def keeps_or_sets_def)

lemma overwrite_message_line: "overwrite (\<lambda>st. st\<lparr>message_line := l\<rparr>)"
  by (simp add: overwrite_def keeps_or_sets_def)

lemma overwrite_parse_status_line: "overwrite (parse_status_line l)"
proof -
  have e: "parse_status_line l =
          (\<lambda>st. (extract_hunger l (extract_gold l (extract_progress l (extract_xl l
             (extract_mana l (extract_hp l (extract_branch l st)))))))\<lparr>status_line := l\<rparr>)"
    by (rule ext) (simp add: parse_status_line_def)
  note c1 = overwrite_comp [OF overwrite_extract_branch overwrite_extract_hp]
  note c2 = overwrite_comp [OF c1 overwrite_extract_mana]
  note c3 = overwrite_comp [OF c2 overwrite_extract_xl]
  note c4 = overwrite_comp [OF c3 overwrite_extract_progress]
  note c5 = overwrite_comp [OF c4 overwrite_extract_gold]
  note c6 = overwrite_comp [OF c5 overwrite_extract_hunger]
  note c7 = overwrite_comp [OF c6 overwrite_status_line]
  show ?thesis unfolding e by (rule c7)
qed

lemma fst_parse_line:
  "fst (parse_line l st) = (l \<noteq> [] \<and> length (strip l) \<ge> 2 \<and> has_status l)"
  by (auto simp: parse_line_def)

lemma overwrite_parse_line: "overwrite (\<lambda>st. snd (parse_line l st))"
proof -
  consider (short) "l = [] \<or> length (strip l) < 2"
    | (status) "\<not> (l = [] \<or> length (strip l) < 2)" "has_status l"
    | (message) "\<not> (l = [] \<or> length (strip l) < 2)" "\<not> has_status l"
        "endswith (strip l) ''.'' \<or> endswith (strip l) ''?''"
    | (other) "\<not> (l = [] \<or> length (strip l) < 2)" "\<not> has_status l"
        "\<not> (endswith (strip l) ''.'' \<or> endswith (strip l) ''?'')"
    by blast
  then show ?thesis
  proof cases
    case short
    then have "(\<lambda>st. snd (parse_line l st)) = (\<lambda>st. st)"
      by (intro ext) (simp add: parse_line_def)
    then show ?thesis by (simp only: overwrite_id)
  next
    case status
    then have "(\<lambda>st. snd (parse_line l st)) = parse_status_line l"
      by (intro ext) (simp add: parse_line_def)
    then show ?thesis by (simp only: overwrite_parse_status_line)
  next
    case message
    then have "(\<lambda>st. snd (parse_line l st)) = (\<lambda>st. st\<lparr>message_line := strip l\<rparr>)"
      by (intro ext) (simp add: parse_line_def)
    then show ?thesis by (simp only: overwrite_message_line)
  next
    case other
    then have "(\<lambda>st. snd (parse_line l st)) = (\<lambda>st. st)"
      by (intro ext) (simp add: parse_line_def)
    then show ?thesis by (simp only: overwrite_id)
  qed
qed

lemma parse_lines_Cons:
  "parse_lines (l # ls) found st =
     (if strip l \<noteq> []
      then parse_lines ls (fst (parse_line (strip l) st) \<or> found) (snd (parse_line (strip l) st))
      else parse_lines ls found st)"
  by (simp add: case_prod_beta)

lemma fst_parse_lines:
  "fst (parse_lines ls found st) = (found \<or> list_ex is_status_line ls)"
proof (induction ls arbitrary: found st)
  case Nil
  then show ?case by simp
next
  case (Cons l ls)
  show ?case
    unfolding parse_lines_Cons
    by (auto simp: Cons.IH fst_parse_line is_status_line_def)
qed

lemma snd_parse_lines_found:
  "snd (parse_lines ls found st) = snd (parse_lines ls False st)"
proof (induction ls arbitrary: found st)
  case Nil
  then show ?case by simp
next
  case (Cons l ls)
  show ?case
    unfolding parse_lines_Cons
    using Cons.IH [of "fst (parse_line (strip l) st) \<or> found"]
      Cons.IH [of "fst (parse_line (strip l) st) \<or> False"] Cons.IH [of found]
    by simp
qed

lemma snd_parse_lines_Cons:
  "snd (parse_lines (l # ls) False st) =
     (if strip l \<noteq> [] then snd (parse_lines ls False (snd (parse_line (strip l) st)))
      else snd (parse_lines ls False st))"
  unfolding parse_lines_Cons
  using snd_parse_lines_found [of ls "fst (parse_line (strip l) st)" "snd (parse_line (strip l) st)"]
  by simp

lemma overwrite_parse_lines: "overwrite (\<lambda>st. snd (parse_lines ls False st))"
proof (induction ls)
  case Nil
  then show ?case by (simp add: overwrite_id)
next
  case (Cons l ls)
  show ?case
  proof (cases "strip l \<noteq> []")
    case True
    then have "(\<lambda>st. snd (parse_lines (l # ls) False st)) =
            (\<lambda>st. snd (parse_lines ls False (snd (parse_line (strip l) st))))"
      by (intro ext) (simp only: snd_parse_lines_Cons if_True simp_thms)
    then show ?thesis
      using overwrite_comp [OF overwrite_parse_line Cons.IH] by (simp only:)
  next
    case False
    then have "(\<lambda>st. snd (parse_lines (l # ls) False st)) = (\<lambda>st. snd (parse_lines ls False st))"
      by (intro ext) (simp only: snd_parse_lines_Cons if_False simp_thms)
    then show ?thesis using Cons.IH by (simp only:)
  qed
qed

lemma parse_lines_idem:
  "snd (parse_lines ls False (snd (parse_lines ls False st))) = snd (parse_lines ls False st)"
  using overwrite_idem [OF overwrite_parse_lines] .

lemma parse_line_restore:
  assumes "\<not> (l \<noteq> [] \<and> length (strip l) \<ge> 2 \<and> has_status l)"
  shows "snd (parse_line l (st\<lparr>GameState.health := a, GameState.max_health := b, mana := c, max_mana := d\<rparr>))
         = (snd (parse_line l st))\<lparr>GameState.health := a, GameState.max_health := b, mana := c, max_mana := d\<rparr>"
  using assms by (auto simp: parse_line_def)

lemma parse_lines_restore:
  assumes "\<not> list_ex is_status_line ls"
  shows "snd (parse_lines ls False (st\<lparr>GameState.health := a, GameState.max_health := b, mana := c, max_mana := d\<rparr>))
         = (snd (parse_lines ls False st))\<lparr>GameState.health := a, GameState.max_health := b, mana := c, max_mana := d\<rparr>"
  using assms
proof (induction ls arbitrary: st)
  case Nil
  then show ?case by simp
next
  case (Cons l ls)
  from Cons.prems have n: "\<not> is_status_line l" and r: "\<not> list_ex is_status_line ls"
    by simp_all
  show ?case
  proof (cases "strip l \<noteq> []")
    case True
    with n have "\<not> (strip l \<noteq> [] \<and> length (strip (strip l)) \<ge> 2 \<and> has_status (strip l))"
      by (simp add: is_status_line_def)
    then show ?thesis
      using True Cons.IH [OF r]
      by (simp only: snd_parse_lines_Cons if_True simp_thms parse_line_restore)
  next
    case False
    then show ?thesis
      using Cons.IH [OF r] by (simp only: snd_parse_lines_Cons if_False simp_thms)
  qed
qed

text \<open>The result of \<open>parse_output\<close> on a non-empty snapshot, written out.\<close>

lemma parse_output_nonempty:
  assumes "out \<noteq> []"
  shows "parse_output out p =
     (let st = snd (parse_lines (split CHR 0x0A (clean_ansi out)) False (state p));
          lh = (if GameState.health st > 0 \<and> GameState.max_health st > 0
                then (GameState.health st, GameState.max_health st) else last_health p);
          lm = (if mana st \<ge> 0 \<and> max_mana st > 0 then (mana st, max_mana st) else last_mana p)
      in \<lparr>state = (if has_status_line out then st
                   else st\<lparr>GameState.health := fst lh, GameState.max_health := snd lh,
                           mana := fst lm, max_mana := snd lm\<rparr>),
          last_health = lh, last_mana = lm, last_screen_output = clean_ansi out\<rparr>)"
proof -
  have f: "fst (parse_lines (split CHR 0x0A (clean_ansi out)) False (state p)) = has_status_line out"
    by (simp add: fst_parse_lines has_status_line_def)
  show ?thesis
    using assms f [symmetric]
    by (simp add: parse_output_def Let_def case_prod_beta)
qed

subsection \<open>Claim C6: parsing the same snapshot twice\<close>

text \<open>
  C6. \<open>parse_output\<close> is idempotent: for every snapshot and every extractor, parsing the
  snapshot a second time leaves the game state and the two caches (and the remembered
  screen text) exactly as the first parse left them.
\<close>
theorem parse_output_idempotent:
  "parse_output out (parse_output out p) = parse_output out p"
proof (cases "out = []")
  case True
  then show ?thesis by (simp add: parse_output_def)
next
  case False
  define ls where "ls = split CHR 0x0A (clean_ansi out)"
  define st where "st = snd (parse_lines ls False (state p))"
  define lh where "lh = (if GameState.health st > 0 \<and> GameState.max_health st > 0
                then (GameState.health st, GameState.max_health st) else last_health p)"
  define lm where "lm = (if mana st \<ge> 0 \<and> max_mana st > 0 then (mana st, max_mana st) else last_mana p)"
  define st' where "st' = (if has_status_line out then st
                   else st\<lparr>GameState.health := fst lh, GameState.max_health := snd lh,
                           mana := fst lm, max_mana := snd lm\<rparr>)"
  define p' where "p' = \<lparr>state = st', last_health = lh, last_mana = lm,
                          last_screen_output = clean_ansi out\<rparr>"
  have first: "parse_output out p = p'"
    unfolding parse_output_nonempty [OF False]
    by (simp add: Let_def p'_def st'_def lm_def lh_def st_def ls_def)
  have again: "snd (parse_lines ls False st') = st'"
  proof (cases "has_status_line out")
    case True
    then show ?thesis
      by (simp add: st'_def st_def parse_lines_idem)
  next
    case False
    then have "\<not> list_ex is_status_line ls"
      by (simp add: has_status_line_def ls_def)
    from parse_lines_restore [OF this] False show ?thesis
      by (simp add: st'_def st_def parse_lines_idem)
  qed
  have h: "(if GameState.health st' > 0 \<and> GameState.max_health st' > 0
            then (GameState.health st', GameState.max_health st') else lh) = lh"
    by (cases "has_status_line out") (auto simp: st'_def lh_def)
  have m: "(if mana st' \<ge> 0 \<and> max_mana st' > 0 then (mana st', max_mana st') else lm) = lm"
    by (cases "has_status_line out") (auto simp: st'_def lm_def)
  have r: "st'\<lparr>GameState.health := fst lh, GameState.max_health := snd lh,
               mana := fst lm, max_mana := snd lm\<rparr> = st'" if "\<not> has_status_line out"
    using that by (simp add: st'_def)
  have s: "state p' = st'" "last_health p' = lh" "last_mana p' = lm"
    by (simp_all add: p'_def)
  have "parse_output out p' =
          \<lparr>state = (if has_status_line out then st'
                    else st'\<lparr>GameState.health := fst lh, GameState.max_health := snd lh,
                             mana := fst lm, max_mana := snd lm\<rparr>),
           last_health = lh, last_mana = lm, last_screen_output = clean_ansi out\<rparr>"
    unfolding parse_output_nonempty [OF False]
    by (simp only: Let_def s ls_def [symmetric] again h m)
  also have "\<dots> = p'"
    using r by (cases "has_status_line out") (simp_all add: p'_def)
  finally have "parse_output out p' = p'" .
  with first show ?thesis by simp
qed

section \<open>Bounds and caching in the extractor\<close>

subsection \<open>What the readings can be\<close>

lemma py_int_nonneg: "0 \<le> py_int s"
proof -
  have d: "0 \<le> digit_value c" for c
    by (simp add: digit_value_def split: option.splits)
  have "0 \<le> a \<Longrightarrow> 0 \<le> foldl (\<lambda>a c. 10 * a + digit_value c) a s" for a
  proof (induction s arbitrary: a)
    case Nil
    then show ?case by simp
  next
    case (Cons c s)
    from Cons.prems d [of c] have "0 \<le> 10 * a + digit_value c" by simp
    then show ?case using Cons.IH by simp
  qed
  then show ?thesis by (simp add: py_int_def)
qed

lemma parse_status_line_health:
  "GameState.health (parse_status_line l st) =
     (case first_match hp_patterns l of Some g \<Rightarrow> py_int (group g 1) | None \<Rightarrow> GameState.health st)"
  "GameState.max_health (parse_status_line l st) =
     (case first_match hp_patterns l of Some g \<Rightarrow> py_int (group g 2) | None \<Rightarrow> GameState.max_health st)"
  "experience_progress (parse_status_line l st) =
     (case re_search True next_pattern l of Some g \<Rightarrow> py_int (group g 1)
      | None \<Rightarrow> experience_progress st)"
  by (simp_all add: parse_status_line_def extract_hunger_def extract_gold_def extract_progress_def
      extract_xl_def extract_mana_def extract_hp_def extract_branch_def split: option.splits)

lemma snd_parse_line_cases:
  "snd (parse_line l st) =
     (if l \<noteq> [] \<and> length (strip l) \<ge> 2 \<and> has_status l then parse_status_line l st
      else if l \<noteq> [] \<and> length (strip l) \<ge> 2
              \<and> (endswith (strip l) ''.'' \<or> endswith (strip l) ''?'')
           then st\<lparr>message_line := strip l\<rparr>
      else st)"
  by (auto simp: parse_line_def)

lemma parse_line_nonneg:
  assumes "0 \<le> GameState.health st \<and> 0 \<le> GameState.max_health st \<and> 0 \<le> experience_progress st"
  shows "0 \<le> GameState.health (snd (parse_line l st))
         \<and> 0 \<le> GameState.max_health (snd (parse_line l st))
         \<and> 0 \<le> experience_progress (snd (parse_line l st))"
  using assms
  by (simp add: snd_parse_line_cases parse_status_line_health py_int_nonneg split: option.splits)

lemma parse_lines_nonneg:
  assumes "0 \<le> GameState.health st \<and> 0 \<le> GameState.max_health st \<and> 0 \<le> experience_progress st"
  shows "0 \<le> GameState.health (snd (parse_lines ls False st))
         \<and> 0 \<le> GameState.max_health (snd (parse_lines ls False st))
         \<and> 0 \<le> experience_progress (snd (parse_lines ls False st))"
  using assms
proof (induction ls arbitrary: st)
  case Nil
  then show ?case by simp
next
  case (Cons l ls)
  show ?case
  proof (cases "strip l \<noteq> []")
    case True
    then have e: "snd (parse_lines (l # ls) False st)
                    = snd (parse_lines ls False (snd (parse_line (strip l) st)))"
      by (simp only: snd_parse_lines_Cons if_True simp_thms)
    show ?thesis
      unfolding e by (rule Cons.IH [OF parse_line_nonneg [OF Cons.prems, of "strip l"]])
  next
    case False
    then have e: "snd (parse_lines (l # ls) False st) = snd (parse_lines ls False st)"
      by (simp only: snd_parse_lines_Cons if_False simp_thms)
    show ?thesis
      unfolding e by (rule Cons.IH [OF Cons.prems])
  qed
qed

lemma parse_line_bounded:
  assumes "(0 < GameState.max_health st \<longrightarrow> GameState.health st \<le> GameState.max_health st)
           \<and> experience_progress st \<le> 100"
    and "well_displayed_line l" and "strip l \<noteq> []"
  shows "(0 < GameState.max_health (snd (parse_line (strip l) st))
            \<longrightarrow> GameState.health (snd (parse_line (strip l) st))
                \<le> GameState.max_health (snd (parse_line (strip l) st)))
         \<and> experience_progress (snd (parse_line (strip l) st)) \<le> 100"
proof (cases "is_status_line l")
  case True
  with assms(2) have w:
    "(case first_match hp_patterns (strip l) of
           Some g \<Rightarrow> py_int (group g 1) \<le> py_int (group g 2) | None \<Rightarrow> True)"
    "(case re_search True next_pattern (strip l) of
             Some g \<Rightarrow> py_int (group g 1) \<le> 100 | None \<Rightarrow> True)"
    by (simp_all add: well_displayed_line_def)
  from True have "snd (parse_line (strip l) st) = parse_status_line (strip l) st"
    by (simp add: snd_parse_line_cases is_status_line_def)
  then show ?thesis
    using assms(1) w
    by (simp add: parse_status_line_health split: option.splits)
next
  case False
  with assms(3) have "\<not> (strip l \<noteq> [] \<and> length (strip (strip l)) \<ge> 2 \<and> has_status (strip l))"
    by (simp add: is_status_line_def)
  then have "snd (parse_line (strip l) st) = st
             \<or> snd (parse_line (strip l) st) = st\<lparr>message_line := strip (strip l)\<rparr>"
    by (auto simp: parse_line_def)
  then show ?thesis
    using assms(1) by auto
qed

lemma parse_lines_bounded:
  assumes "(0 < GameState.max_health st \<longrightarrow> GameState.health st \<le> GameState.max_health st)
           \<and> experience_progress st \<le> 100"
    and "list_all well_displayed_line ls"
  shows "(0 < GameState.max_health (snd (parse_lines ls False st))
            \<longrightarrow> GameState.health (snd (parse_lines ls False st))
                \<le> GameState.max_health (snd (parse_lines ls False st)))
         \<and> experience_progress (snd (parse_lines ls False st)) \<le> 100"
  using assms
proof (induction ls arbitrary: st)
  case Nil
  then show ?case by simp
next
  case (Cons l ls)
  from Cons.prems(2) have w: "well_displayed_line l" and r: "list_all well_displayed_line ls"
    by simp_all
  show ?case
  proof (cases "strip l \<noteq> []")
    case True
    then have e: "snd (parse_lines (l # ls) False st)
                    = snd (parse_lines ls False (snd (parse_line (strip l) st)))"
      by (simp only: snd_parse_lines_Cons if_True simp_thms)
    show ?thesis
      unfolding e by (rule Cons.IH [OF parse_line_bounded [OF Cons.prems(1) w True] r])
  next
    case False
    then have e: "snd (parse_lines (l # ls) False st) = snd (parse_lines ls False st)"
      by (simp only: snd_parse_lines_Cons if_False simp_thms)
    show ?thesis
      unfolding e by (rule Cons.IH [OF Cons.prems(1) r])
  qed
qed

lemma parse_output_nonneg:
  assumes "0 \<le> GameState.health (state p) \<and> 0 \<le> GameState.max_health (state p)
           \<and> 0 \<le> experience_progress (state p)
           \<and> 0 \<le> fst (last_health p) \<and> 0 \<le> snd (last_health p)"
  shows "0 \<le> GameState.health (state (parse_output out p))
         \<and> 0 \<le> GameState.max_health (state (parse_output out p))
         \<and> 0 \<le> experience_progress (state (parse_output out p))
         \<and> 0 \<le> fst (last_health (parse_output out p))
         \<and> 0 \<le> snd (last_health (parse_output out p))"
proof (cases "out = []")
  case True
  with assms show ?thesis by (simp add: parse_output_def)
next
  case False
  from assms have "0 \<le> GameState.health (state p) \<and> 0 \<le> GameState.max_health (state p)
           \<and> 0 \<le> experience_progress (state p)" by simp
  note n = parse_lines_nonneg [OF this, of "split CHR 0x0A (clean_ansi out)"]
  show ?thesis
    unfolding parse_output_nonempty [OF False] Let_def
    using n assms by simp
qed

lemma parse_output_bounded:
  assumes "(0 < GameState.max_health (state p)
              \<longrightarrow> GameState.health (state p) \<le> GameState.max_health (state p))
           \<and> experience_progress (state p) \<le> 100
           \<and> fst (last_health p) \<le> snd (last_health p)"
    and "well_displayed out"
  shows "(0 < GameState.max_health (state (parse_output out p))
              \<longrightarrow> GameState.health (state (parse_output out p))
                  \<le> GameState.max_health (state (parse_output out p)))
         \<and> experience_progress (state (parse_output out p)) \<le> 100
         \<and> fst (last_health (parse_output out p)) \<le> snd (last_health (parse_output out p))"
proof (cases "out = []")
  case True
  with assms show ?thesis by (simp add: parse_output_def)
next
  case False
  from assms(1) have "(0 < GameState.max_health (state p)
              \<longrightarrow> GameState.health (state p) \<le> GameState.max_health (state p))
           \<and> experience_progress (state p) \<le> 100" by simp
  note b = parse_lines_bounded [OF this assms(2) [unfolded well_displayed_def]]
  show ?thesis
    unfolding parse_output_nonempty [OF False] Let_def
    using b assms(1) by simp
qed

lemma parse_all_nonneg:
  assumes "0 \<le> GameState.health (state p) \<and> 0 \<le> GameState.max_health (state p)
           \<and> 0 \<le> experience_progress (state p)
           \<and> 0 \<le> fst (last_health p) \<and> 0 \<le> snd (last_health p)"
  shows "0 \<le> GameState.health (state (foldl (\<lambda>p out. parse_output out p) p outs))
         \<and> 0 \<le> GameState.max_health (state (foldl (\<lambda>p out. parse_output out p) p outs))
         \<and> 0 \<le> experience_progress (state (foldl (\<lambda>p out. parse_output out p) p outs))
         \<and> 0 \<le> fst (last_health (foldl (\<lambda>p out. parse_output out p) p outs))
         \<and> 0 \<le> snd (last_health (foldl (\<lambda>p out. parse_output out p) p outs))"
  using assms
proof (induction outs arbitrary: p)
  case Nil
  then show ?case by simp
next
  case (Cons out outs)
  show ?case
    using Cons.IH [OF parse_output_nonneg [OF Cons.prems, of out]] by simp
qed

lemma parse_all_bounded:
  assumes "(0 < GameState.max_health (state p)
              \<longrightarrow> GameState.health (state p) \<le> GameState.max_health (state p))
           \<and> experience_progress (state p) \<le> 100
           \<and> fst (last_health p) \<le> snd (last_health p)"
    and "list_all well_displayed outs"
  shows "(0 < GameState.max_health (state (foldl (\<lambda>p out. parse_output out p) p outs))
              \<longrightarrow> GameState.health (state (foldl (\<lambda>p out. parse_output out p) p outs))
                  \<le> GameState.max_health (state (foldl (\<lambda>p out. parse_output out p) p outs)))
         \<and> experience_progress (state (foldl (\<lambda>p out. parse_output out p) p outs)) \<le> 100
         \<and> fst (last_health (foldl (\<lambda>p out. parse_output out p) p outs))
             \<le> snd (last_health (foldl (\<lambda>p out. parse_output out p) p outs))"
  using assms
proof (induction outs arbitrary: p)
  case Nil
  then show ?case by simp
next
  case (Cons out outs)
  from Cons.prems(2) have w: "well_displayed out" and r: "list_all well_displayed outs"
    by simp_all
  show ?case
    using Cons.IH [OF parse_output_bounded [OF Cons.prems(1) w] r] by simp
qed








lemma bad_reading_value:
  "parse_output ''Health: 50/10 Next: 150%'' GameStateParser_init =
     \<lparr>state = GameState_init\<lparr>GameState.health := 50, GameState.max_health := 10,
                experience_progress := 150, status_line := ''Health: 50/10 Next: 150%''\<rparr>,
      last_health = (50, 10), last_mana = (0, 0),
      last_screen_output = ''Health: 50/10 Next: 150%''\<rparr>"
  by code_simp

lemma good_readings_value:
  "parse_all [''Health: 23/23  Next: 40%'', ''You see nothing.''] =
     \<lparr>state = GameState_init\<lparr>GameState.health := 23, GameState.max_health := 23,
                experience_progress := 40, status_line := ''Health: 23/23  Next: 40%'',
                message_line := ''You see nothing.''\<rparr>,
      last_health = (23, 23), last_mana = (0, 0),
      last_screen_output = ''You see nothing.''\<rparr>"
  by code_simp

lemma good_readings_displayed:
  "list_all well_displayed [''Health: 23/23  Next: 40%'', ''You see nothing.'']"
  by code_simp






subsection \<open>Claim C3: bounds on the parsed readings\<close>

text \<open>
  C3 (as amended). \<open>parse_output\<close> copies the numbers it reads and does not clamp them.
  After any sequence of snapshots fed to a fresh extractor, health, maximum health and
  experience progress are non-negative; health is at most maximum health (when that is
  positive) and experience progress is at most 100 provided every snapshot was well
  displayed, that is, every health reading \<open>h/m\<close> shown in a status line had \<open>h \<le> m\<close> and
  every \<open>Next: p%\<close> reading had \<open>p \<le> 100\<close>.
\<close>
theorem parse_readings:
  "0 \<le> GameState.health (state (parse_all outs))
   \<and> 0 \<le> GameState.max_health (state (parse_all outs))
   \<and> 0 \<le> experience_progress (state (parse_all outs))
   \<and> (list_all well_displayed outs \<longrightarrow>
        (0 < GameState.max_health (state (parse_all outs))
           \<longrightarrow> GameState.health (state (parse_all outs))
               \<le> GameState.max_health (state (parse_all outs)))
        \<and> experience_progress (state (parse_all outs)) \<le> 100)"
proof -
  have i: "0 \<le> GameState.health (state GameStateParser_init)
           \<and> 0 \<le> GameState.max_health (state GameStateParser_init)
           \<and> 0 \<le> experience_progress (state GameStateParser_init)
           \<and> 0 \<le> fst (last_health GameStateParser_init)
           \<and> 0 \<le> snd (last_health GameStateParser_init)"
    by (simp add: GameStateParser_init_def GameState_init_def)
  have b: "(0 < GameState.max_health (state GameStateParser_init)
              \<longrightarrow> GameState.health (state GameStateParser_init)
                  \<le> GameState.max_health (state GameStateParser_init))
           \<and> experience_progress (state GameStateParser_init) \<le> 100
           \<and> fst (last_health GameStateParser_init) \<le> snd (last_health GameStateParser_init)"
    by (simp add: GameStateParser_init_def GameState_init_def)
  show ?thesis
    unfolding parse_all_def
    using parse_all_nonneg [OF i, of outs] parse_all_bounded [OF b, of outs]
    by blast
qed




theorem parse_readings_witness:
  "list_all well_displayed [''Health: 23/23  Next: 40%'', ''You see nothing.'']
   \<and> GameState.health (state (parse_all [''Health: 23/23  Next: 40%'', ''You see nothing.''])) = 23
   \<and> GameState.health (state (parse_all [''Health: 23/23  Next: 40%'', ''You see nothing.'']))
       \<le> GameState.max_health (state (parse_all [''Health: 23/23  Next: 40%'', ''You see nothing.'']))
   \<and> experience_progress (state (parse_all [''Health: 23/23  Next: 40%'', ''You see nothing.''])) \<le> 100"
  using parse_readings [of "[''Health: 23/23  Next: 40%'', ''You see nothing.'']"]
    good_readings_displayed
  by (simp add: good_readings_value)


text \<open>
  C3 (as stated) fails: a status line that reads \<open>Health: 50/10 Next: 150%\<close> is parsed
  into health 50 above maximum health 10, and experience progress 150 above 100.
\<close>
theorem parse_bounds_counterexample:
  "GameState.health (state (parse_output ''Health: 50/10 Next: 150%'' GameStateParser_init)) = 50
   \<and> GameState.max_health (state (parse_output ''Health: 50/10 Next: 150%'' GameStateParser_init)) = 10
   \<and> experience_progress (state (parse_output ''Health: 50/10 Next: 150%'' GameStateParser_init)) = 150"
  by (simp add: bad_reading_value)


subsection \<open>Claim C5: the cache-and-restore rule\<close>




section \<open>The better-armor search\<close>

lemma sort_key_Nil_iff: "sort_key f xs = [] \<longleftrightarrow> xs = []"
  by (metis length_sort list.size(3) length_0_conv)

lemma first_of_descending:
  fixes k :: "'a \<Rightarrow> int"
  shows "(case sort_key (\<lambda>x. - k x) xs of [] \<Rightarrow> None | y # _ \<Rightarrow> Some y)
         = find (\<lambda>y. list_all (\<lambda>z. k z \<le> k y) xs) xs"
proof (induction xs)
  case Nil
  then show ?case by simp
next
  case (Cons x xs)
  let ?r = "sort_key (\<lambda>x. - k x) xs"
  show ?case
  proof (cases xs)
    case Nil
    then show ?thesis by simp
  next
    case (Cons x' xs')
    then have "?r \<noteq> []" by (simp add: sort_key_Nil_iff del: sort_key_simps)
    then obtain y r' where r: "?r = y # r'" by (cases ?r) auto
    with Cons.IH have f: "find (\<lambda>y. list_all (\<lambda>z. k z \<le> k y) xs) xs = Some y" by simp
    then have y: "y \<in> set xs" "\<forall>z \<in> set xs. k z \<le> k y"
      by (auto simp: find_Some_iff list_all_iff)
    show ?thesis
    proof (cases "k y \<le> k x")
      case True
      with y have "list_all (\<lambda>z. k z \<le> k x) (x # xs)"
        by (auto simp: list_all_iff)
      with True r show ?thesis by simp
    next
      case False
      with y have n: "\<not> list_all (\<lambda>z. k z \<le> k x) (x # xs)"
        by (auto simp: list_all_iff)
      have "find (\<lambda>w. list_all (\<lambda>z. k z \<le> k w) (x # xs)) xs
            = find (\<lambda>w. list_all (\<lambda>z. k z \<le> k w) xs) xs"
      proof (rule find_cong [OF refl])
        fix w assume "w \<in> set xs"
        show "list_all (\<lambda>z. k z \<le> k w) (x # xs) = list_all (\<lambda>z. k z \<le> k w) xs"
        proof (cases "list_all (\<lambda>z. k z \<le> k w) xs")
          case True
          with y(1) have "k y \<le> k w" by (auto simp: list_all_iff)
          with False True show ?thesis by simp
        next
          case False
          then show ?thesis by simp
        qed
      qed
      with f n False r show ?thesis by simp
    qed
  qed
qed


lemma find_over_map: "find P (map g xs) = map_option g (find (\<lambda>x. P (g x)) xs)"
  by (induction xs) simp_all

lemma candidate_eligible:
  "candidate st entry =
     (if eligible st (snd entry) then Some (gain st (snd entry), entry) else None)"
  by (cases entry)
    (auto simp: candidate_def eligible_def gain_def has_equipment_slot_def equipped_in_slot_def
      split: option.splits)

lemma better_items_amended:
  "better_items st = map (\<lambda>entry. (gain st (snd entry), entry)) (amended_candidates st)"
proof -
  have "candidate st = (\<lambda>entry. if eligible st (snd entry)
                          then Some (gain st (snd entry), entry) else None)"
    by (rule ext) (rule candidate_eligible)
  then show ?thesis
    by (simp add: better_items_def amended_candidates_def map_filter_map_filter case_prod_unfold)
qed

lemma find_better_armor_first_max:
  "find_better_armor st =
     find (\<lambda>entry. list_all (\<lambda>entry'. gain st (snd entry') \<le> gain st (snd entry))
                     (amended_candidates st))
       (amended_candidates st)"
proof -
  let ?g = "\<lambda>entry. (gain st (snd entry), entry)"
  let ?h = "\<lambda>x :: int \<times> string \<times> InventoryItem. snd x"
  let ?cs = "amended_candidates st"
  have "find_better_armor st =
          map_option ?h (case sort_key (\<lambda>x. - fst x) (map ?g ?cs) of [] \<Rightarrow> None | y # _ \<Rightarrow> Some y)"
    by (simp add: find_better_armor_def better_items_amended split: list.splits)
  also have "\<dots> = map_option ?h (find (\<lambda>y. list_all (\<lambda>z. fst z \<le> fst y) (map ?g ?cs)) (map ?g ?cs))"
    by (simp only: first_of_descending)
  also have "\<dots> = map_option ?h (map_option ?g
                 (find (\<lambda>entry. list_all (\<lambda>entry'. gain st (snd entry') \<le> gain st (snd entry)) ?cs) ?cs))"
    by (simp add: find_over_map comp_def list_all_iff)
  also have "\<dots> = find (\<lambda>entry. list_all (\<lambda>entry'. gain st (snd entry') \<le> gain st (snd entry)) ?cs) ?cs"
    by (simp add: option.map_comp comp_def option.map_ident)
  finally show ?thesis .
qed

lemma no_candidates:
  assumes "no_armor_improves st"
  shows "amended_candidates st = []"
proof -
  have "\<not> eligible st item" if "(slt, item) \<in> set (inventory_items st)" for slt item
  proof
    assume e: "eligible st item"
    then have "item_type item = ''armor''" by (simp add: eligible_def)
    with assms that obtain current where
      "equipped_in_slot st item = Some current" "ac_value current \<le> ac_value item"
      by (auto simp: no_armor_improves_def list_all_iff split: option.splits)
    with e show False by (simp add: eligible_def)
  qed
  then show ?thesis
    by (auto simp: amended_candidates_def filter_empty_conv)
qed

subsection \<open>Claim C7: the better-armor search against its reference definition\<close>

text \<open>
  C7 (as amended). \<open>find_better_armor\<close> equals the amended reference definition: among
  the armor items of the inventory that are not equipped, have an equipment slot and carry
  a protective bonus (a negative armor class value), a candidate is an item whose slot is
  empty, improving by the size of its bonus, or whose armor class value is strictly below
  that of the item equipped in the same slot, improving by the difference; the candidate
  with the largest improvement is returned, the first in inventory order among equals, and
  none when there is no candidate. In particular the result is none when every armor item
  has an equal or worse armor class value than the item equipped in its slot.
\<close>
theorem find_better_armor_refines_amended:
  "find_better_armor st = find_better_armor_amended st
   \<and> (no_armor_improves st \<longrightarrow> find_better_armor st = None)"
proof -
  have "find_better_armor st = find_better_armor_amended st"
    by (simp add: find_better_armor_first_max find_better_armor_amended_def case_prod_unfold)
  moreover have "find_better_armor st = None" if "no_armor_improves st"
    using no_candidates [OF that] by (simp add: find_better_armor_first_max)
  ultimately show ?thesis by simp
qed

lemma armor_examples:
  "find_better_armor two_upgrades_state = Some (''a'', chain_mail)"
  "find_better_armor_spec two_upgrades_state = Some (''b'', boots)"
  "find_better_armor_amended two_upgrades_state = Some (''a'', chain_mail)"
  "no_armor_improves worse_armor_state"
  "find_better_armor_amended worse_armor_state = None"
  by code_simp+

theorem find_better_armor_refines_amended_witness:
  "find_better_armor two_upgrades_state = Some (''a'', chain_mail)
   \<and> no_armor_improves worse_armor_state \<and> find_better_armor worse_armor_state = None"
  using find_better_armor_refines_amended [of two_upgrades_state]
    find_better_armor_refines_amended [of worse_armor_state]
  by (simp add: armor_examples(3,4,5))

text \<open>
  C7 (as stated) fails: with leather armour (-1) equipped on the body, chain mail (-5) for
  the body and boots (-1) for the empty feet slot in the inventory, the reference
  definition of the specification prefers the boots (an empty slot is infinitely
  improvable), while \<open>find_better_armor\<close> returns the chain mail (improvement 4 against 1).
\<close>
theorem find_better_armor_spec_counterexample:
  "find_better_armor two_upgrades_state = Some (''a'', chain_mail)
   \<and> find_better_armor_spec two_upgrades_state = Some (''b'', boots)
   \<and> find_better_armor two_upgrades_state \<noteq> find_better_armor_spec two_upgrades_state"
  by (simp add: armor_examples(1,2))

section \<open>The combat rules and the direction to the enemy\<close>




subsection \<open>Claim C2: the combat rules\<close>






section \<open>Properties of the character-creation flow\<close>

lemma update_keeps_gameplay:
  assumes "current_state m = gameplay"
  shows "current_state (update t m) = gameplay"
  using assms by (simp add: update_def process_screen_def Let_def)

subsection \<open>Claim C9: gameplay is terminal\<close>

text \<open>
  C9. Once the current state of the character-creation machine is gameplay, it is gameplay
  after every further sequence of \<open>update\<close> calls, whatever the screens show: the machine
  never goes back to startup or to a menu-selection state.
\<close>
theorem gameplay_is_terminal:
  assumes "current_state m = gameplay"
  shows "current_state (updates texts m) = gameplay"
  using assms unfolding updates_def
proof (induction texts arbitrary: m)
  case Nil
  then show ?case by simp
next
  case (Cons t texts)
  from Cons.IH [OF update_keeps_gameplay [OF Cons.prems]] show ?case by simp
qed

lemma reached_gameplay_state: "current_state reached_gameplay = gameplay"
  by code_simp

theorem gameplay_is_terminal_witness:
  "current_state reached_gameplay = gameplay
   \<and> current_state (updates [''Select your species'', ''Enter your name:'', ''Tutorial'']
                       reached_gameplay) = gameplay"
  using reached_gameplay_state gameplay_is_terminal [OF reached_gameplay_state]
  by simp

end
